theory Spec2Isabelle
  imports Complex_Main
begin

section \<open>Conventions of the embedding\<close>

text \<open>
  The sonar simulator computes with numpy arrays of IEEE doubles.  The embedding reads a
  double as a real number and does not model the rounding of the values a function
  returns.  Where the result of a rounded operation decides which branch the code takes
  (the threshold test of the detector, the gate and the matrix inversion of the tracker,
  the matrix inversion of the adaptive beamformer), the operation is a parameter of the
  model, and \<open>exact_arith\<close> and \<open>exact_linalg\<close> are the instances without rounding.
  Where numpy would produce a non-finite value (\<open>nan\<close>, \<open>inf\<close>) from finite inputs,
  the definition concerned says so.  The threshold of the detector and the band means of
  the classifier give that case a value of its own (\<open>None\<close>); the quotients of the
  beamformers do not, and no statement depends on their value where the divisor is zero.
  Every exception the modelled code can raise is a value of \<open>np_error\<close>.
\<close>

datatype np_error = ZeroDivisionError | ValueError | LinAlgError | IndexError | KeyError

section \<open>Python sequences\<close>

text \<open>
  A Python slice \<open>xs[start:stop]\<close> of a sequence, for integer bounds of either sign: a
  negative bound counts from the end, and both bounds are then clipped to \<open>[0, len(xs)]\<close>.
\<close>

definition py_slice :: "'a list \<Rightarrow> int \<Rightarrow> int \<Rightarrow> 'a list" where
  "py_slice xs start stop =
     (let n = int (length xs);
          clip = (\<lambda>i. if i < 0 then max 0 (i + n) else min i n);
          lo = clip start;
          hi = clip stop
      in take (nat (hi - lo)) (drop (nat lo) xs))"

section \<open>beamforming.py: steering vectors\<close>

text \<open>A row of the \<open>(num_elements, 3)\<close> positions array.\<close>

type_synonym vec3 = "real \<times> real \<times> real"

text \<open>\<open>np.deg2rad\<close>.\<close>

definition deg2rad :: "real \<Rightarrow> real" where
  "deg2rad d = d * (pi / 180)"

text \<open>
  \<open>direction = np.array([np.cos(el)*np.cos(az), np.cos(el)*np.sin(az), np.sin(el)])\<close>
\<close>

definition direction :: "real \<Rightarrow> real \<Rightarrow> vec3" where
  "direction az el = (cos el * cos az, cos el * sin az, sin el)"

text \<open>One entry of \<open>positions @ direction\<close>.\<close>

fun dot3 :: "vec3 \<Rightarrow> vec3 \<Rightarrow> real" where
  "dot3 (px, py, pz) (dx, dy, dz) = px * dx + py * dy + pz * dz"

text \<open>
  \<open>steering_vector(positions, az_deg, el_deg, freq, c=1500.0)\<close>.  The wavenumber
  \<open>k = 2 * np.pi * freq / c\<close> is a division of Python floats, which raises
  \<open>ZeroDivisionError\<close> at \<open>c = 0\<close>.
\<close>

definition steering_vector ::
  "vec3 list \<Rightarrow> real \<Rightarrow> real \<Rightarrow> real \<Rightarrow> real \<Rightarrow> np_error + complex list" where
  "steering_vector positions az_deg el_deg freq c =
     (if c = 0 then Inl ZeroDivisionError
      else
        let az = deg2rad az_deg;
            el = deg2rad el_deg;
            k = 2 * pi * freq / c;
            d = direction az el
        in Inr (map (\<lambda>p. exp (- \<i> * complex_of_real k * complex_of_real (dot3 p d))) positions))"

section \<open>beamforming.py: the two beamformers\<close>

text \<open>
  The snapshot \<open>data\<close>, an array of shape \<open>(num_elements, N)\<close>: its rows, each of
  \<open>arr_width\<close> entries, and \<open>arr_width = data.shape[1]\<close>, which an array without rows
  still has.
\<close>

record array2d =
  arr_rows :: "complex list list"
  arr_width :: nat

text \<open>
  \<open>data * sv[:, None].conjugate()\<close>, the product of arrays of shapes \<open>(E, N)\<close> and
  \<open>(M, 1)\<close> under numpy's broadcasting: the first axes must agree or one of them must be 1,
  and the axis of length 1 is then repeated.  Otherwise numpy raises \<open>ValueError\<close>
  (operands could not be broadcast together).
\<close>

definition broadcast_mul :: "complex list list \<Rightarrow> complex list \<Rightarrow> np_error + complex list list" where
  "broadcast_mul rows sv =
     (if length rows = length sv then Inr (map2 (\<lambda>row w. map (\<lambda>x. x * cnj w) row) rows sv)
      else if length sv = 1 then Inr (map (\<lambda>row. map (\<lambda>x. x * cnj (sv ! 0)) row) rows)
      else if length rows = 1 then Inr (map (\<lambda>w. map (\<lambda>x. x * cnj w) (rows ! 0)) sv)
      else Inl ValueError)"

text \<open>\<open>np.sum(steered, axis=0)\<close> for rows of \<open>N\<close> entries.\<close>

definition sum_axis0 :: "nat \<Rightarrow> complex list list \<Rightarrow> complex list" where
  "sum_axis0 N rows = map (\<lambda>n. sum_list (map (\<lambda>row. row ! n) rows)) [0..<N]"

text \<open>
  \<open>delay_and_sum(data, positions, az_deg, el_deg, fs, freq, c=1500.0)\<close>; \<open>fs\<close> is not
  used.  For a snapshot without rows numpy divides by \<open>data.shape[0] = 0\<close>, which fills the
  result with \<open>nan\<close> and raises nothing; the quotient \<open>x / 0 = 0\<close> of HOL stands for these
  entries, and nothing below depends on their value.
\<close>

definition delay_and_sum ::
  "array2d \<Rightarrow> vec3 list \<Rightarrow> real \<Rightarrow> real \<Rightarrow> int \<Rightarrow> real \<Rightarrow> real \<Rightarrow> np_error + complex list" where
  "delay_and_sum data positions az_deg el_deg fs freq c =
     (case steering_vector positions az_deg el_deg freq c of
        Inl e \<Rightarrow> Inl e
      | Inr sv \<Rightarrow>
          (case broadcast_mul (arr_rows data) sv of
             Inl e \<Rightarrow> Inl e
           | Inr steered \<Rightarrow>
               Inr (map (\<lambda>s. s / of_nat (length (arr_rows data)))
                      (sum_axis0 (arr_width data) steered))))"

text \<open>\<open>np.fft.fft\<close> of one row of \<open>N > 0\<close> points: the discrete Fourier transform.\<close>

definition fft :: "complex list \<Rightarrow> complex list" where
  "fft x =
     map (\<lambda>k. sum_list (map (\<lambda>n. x ! n * cis (- 2 * pi * real k * real n / real (length x)))
                           [0..<length x]))
       [0..<length x]"

text \<open>Python's \<open>int(x)\<close> on a float: truncation towards zero.\<close>

definition py_int :: "real \<Rightarrow> int" where
  "py_int x = (if 0 \<le> x then \<lfloor>x\<rfloor> else \<lceil>x\<rceil>)"

text \<open>\<open>bin_idx = int(freq / (data.shape[1])) if data.shape[1] > 0 else 0\<close>\<close>

definition bin_index :: "real \<Rightarrow> nat \<Rightarrow> int" where
  "bin_index freq N = (if N > 0 then py_int (freq / real N) else 0)"

definition cdot :: "complex list \<Rightarrow> complex list \<Rightarrow> complex" where
  "cdot u v = sum_list (map2 (*) u v)"

text \<open>
  \<open>R = snapshot @ snapshot.conj().T\<close> followed by \<open>R += reg * np.eye(R.shape[0])\<close>, for a
  snapshot of \<open>E\<close> rows: an \<open>E \<times> E\<close> matrix.
\<close>

definition covariance :: "complex list list \<Rightarrow> real \<Rightarrow> complex list list" where
  "covariance snapshot reg =
     map (\<lambda>a. map (\<lambda>b. cdot (snapshot ! a) (map cnj (snapshot ! b))
                         + (if a = b then complex_of_real reg else 0))
                 [0..<length snapshot])
       [0..<length snapshot]"

text \<open>
  The first four statements of \<open>mvdr_beamform\<close> after the transform: the bin index, the
  slice \<open>X[:, bin_idx:bin_idx+1]\<close> of every row (empty when the index is out of range),
  and the regularised covariance \<open>R\<close>.
\<close>

definition mvdr_covariance :: "array2d \<Rightarrow> real \<Rightarrow> real \<Rightarrow> complex list list" where
  "mvdr_covariance data freq reg =
     (let X = map fft (arr_rows data);
          bin_idx = bin_index freq (arr_width data);
          snapshot = map (\<lambda>row. py_slice row bin_idx (bin_idx + 1)) X
      in covariance snapshot reg)"

text \<open>
  \<open>mvdr_beamform(data, positions, az_deg, el_deg, freq, reg=1e-3)\<close>.  \<open>np.linalg.inv\<close> on
  a complex matrix of any size is numpy's own and is the parameter \<open>inv_fn\<close> here; it
  returns a matrix of the shape of its argument or raises \<open>LinAlgError\<close>.  In the order of
  the source: \<open>np.fft.fft\<close> raises \<open>ValueError\<close> on an axis of length 0 (invalid number of
  data points); \<open>inv(R) @ sv\<close> is the product of an \<open>E \<times> E\<close> matrix and a vector of \<open>M\<close>
  entries, which raises \<open>ValueError\<close> unless \<open>E = M\<close>; the division by
  \<open>sv.conj().T @ inv(R) @ sv\<close> raises nothing (a zero divisor gives non-finite entries,
  for which the quotient \<open>x / 0 = 0\<close> of HOL stands).
\<close>

definition mvdr_beamform ::
  "(complex list list \<Rightarrow> np_error + complex list list) \<Rightarrow>
   array2d \<Rightarrow> vec3 list \<Rightarrow> real \<Rightarrow> real \<Rightarrow> real \<Rightarrow> real \<Rightarrow> np_error + complex list" where
  "mvdr_beamform inv_fn data positions az_deg el_deg freq reg =
     (if arr_width data = 0 then Inl ValueError
      else
        let R = mvdr_covariance data freq reg
        in case steering_vector positions az_deg el_deg freq 1500 of
             Inl e \<Rightarrow> Inl e
           | Inr sv \<Rightarrow>
               (case inv_fn R of
                  Inl e \<Rightarrow> Inl e
                | Inr R_inv \<Rightarrow>
                    if length R \<noteq> length sv then Inl ValueError
                    else
                      let w0 = map (\<lambda>row. cdot row sv) R_inv;
                          gain = cdot (map (\<lambda>j. cdot (map cnj sv) (map (\<lambda>row. row ! j) R_inv))
                                         [0..<length R]) sv;
                          w = map (\<lambda>x. x / gain) w0
                      in Inr (map (\<lambda>n. cdot (map cnj w) (map (\<lambda>row. row ! n) (arr_rows data)))
                                [0..<arr_width data])))"

text \<open>
  What \<open>np.linalg.inv\<close> does on a \<open>1 \<times> 1\<close> matrix, for evaluating \<open>mvdr_beamform\<close> on
  single-element arrays.
\<close>

fun inv_1x1 :: "complex list list \<Rightarrow> np_error + complex list list" where
  "inv_1x1 [[a]] = (if a = 0 then Inl LinAlgError else Inr [[1 / a]])"
| "inv_1x1 _ = Inl LinAlgError"

subsection \<open>The bin selection as the specification words it\<close>

text \<open>
  Specification, section 4.2 (a) and the open question of section 9: the bin whose centre
  frequency is nearest the target frequency, by the frequency resolution \<open>fs / N\<close> of a
  snapshot of \<open>N\<close> samples taken at sample rate \<open>fs\<close>.
\<close>

definition nearest_bin_spec :: "real \<Rightarrow> real \<Rightarrow> nat \<Rightarrow> int" where
  "nearest_bin_spec fs freq N = round (freq / (fs / real N))"

section \<open>processing.py: the CFAR detector\<close>

text \<open>
  The body of the loop of \<open>simple_cfar\<close> up to \<open>np.concatenate\<close>: the noise samples of
  cell \<open>i\<close>.  \<open>guard\<close> and \<open>noise_win\<close> are Python ints.
\<close>

definition noise_samples :: "real list \<Rightarrow> int \<Rightarrow> int \<Rightarrow> nat \<Rightarrow> real list" where
  "noise_samples data guard noise_win i =
     (let N = int (length data);
          left_start = max 0 (int i - guard - noise_win);
          left_end = max 0 (int i - guard);
          right_start = min N (int i + guard + 1);
          right_end = min N (int i + guard + 1 + noise_win)
      in py_slice data left_start left_end @ py_slice data right_start right_end)"

text \<open>
  The arithmetic of the detector is numpy's, on doubles.  Every operation of it that
  rounds is a field of this record: \<open>np.mean\<close> on a non-empty array, \<open>np.log\<close>,
  \<open>np.sqrt\<close>, and the sum and the product of two doubles.  A result that overflows is a
  number above every double.  \<open>np.abs\<close>, the negation and the comparison of two doubles
  do not round.
\<close>

record float_arith =
  np_mean :: "real list \<Rightarrow> real"
  np_log :: "real \<Rightarrow> real"
  np_sqrt :: "real \<Rightarrow> real"
  fl_add :: "real \<Rightarrow> real \<Rightarrow> real"
  fl_mul :: "real \<Rightarrow> real \<Rightarrow> real"

text \<open>The same operations without rounding.\<close>

definition exact_arith :: float_arith where
  "exact_arith =
     \<lparr>np_mean = (\<lambda>xs. sum_list xs / real (length xs)),
      np_log = ln,
      np_sqrt = sqrt,
      fl_add = (+),
      fl_mul = (*)\<rparr>"

text \<open>
  The factor \<open>1 + 3*np.sqrt(-np.log(rate))\<close>.  It is a finite number exactly for
  \<open>0 < rate \<le> 1\<close>.  Elsewhere numpy gives a non-finite value and no exception:
  \<open>np.log\<close> is \<open>nan\<close> below 0 and \<open>-inf\<close> at 0 (so the factor is \<open>nan\<close> or \<open>inf\<close>), and
  above 1 the square root of a negative number is \<open>nan\<close>.  \<open>None\<close> stands for these.
\<close>

definition rate_factor :: "float_arith \<Rightarrow> real \<Rightarrow> real option" where
  "rate_factor ar rate =
     (if 0 < rate \<and> rate \<le> 1
      then Some (fl_add ar 1 (fl_mul ar 3 (np_sqrt ar (- np_log ar rate))))
      else None)"

text \<open>
  \<open>np.abs(data[i]) > noise_level * factor\<close>.  With a non-finite factor the threshold is
  \<open>inf\<close> or \<open>nan\<close> (\<open>noise_level\<close> is not negative), and the comparison of a finite number
  with either is \<open>False\<close>.
\<close>

definition exceeds :: "float_arith \<Rightarrow> real \<Rightarrow> real \<Rightarrow> real option \<Rightarrow> bool" where
  "exceeds ar x noise_level factor =
     (case factor of None \<Rightarrow> False | Some f \<Rightarrow> \<bar>x\<bar> > fl_mul ar noise_level f)"

text \<open>
  \<open>for i in range(N)\<close> with the output array \<open>out\<close> threaded through; \<open>continue\<close> leaves
  \<open>out[i]\<close> as it is.  \<open>noise_level = np.mean(np.abs(noise_samples))\<close>.
\<close>

fun cfar_loop ::
  "float_arith \<Rightarrow> real list \<Rightarrow> int \<Rightarrow> int \<Rightarrow> real \<Rightarrow> nat list \<Rightarrow> bool list \<Rightarrow> bool list" where
  "cfar_loop ar data guard noise_win rate [] out = out"
| "cfar_loop ar data guard noise_win rate (i # is) out =
     (let ns = noise_samples data guard noise_win i in
      if length ns < 1 then cfar_loop ar data guard noise_win rate is out
      else
        let noise_level = np_mean ar (map abs ns)
        in cfar_loop ar data guard noise_win rate is
             (out[i := exceeds ar (data ! i) noise_level (rate_factor ar rate)]))"

text \<open>
  \<open>simple_cfar(data, guard=5, noise_win=20, rate=1e-3)\<close>; \<open>out\<close> starts as
  \<open>np.zeros_like(data, dtype=bool)\<close>.  The function has no \<open>raise\<close> and no operation that
  raises on these types, so it returns a mask for every input.
\<close>

definition simple_cfar :: "float_arith \<Rightarrow> real list \<Rightarrow> int \<Rightarrow> int \<Rightarrow> real \<Rightarrow> bool list" where
  "simple_cfar ar data guard noise_win rate =
     cfar_loop ar data guard noise_win rate [0..<length data] (replicate (length data) False)"

text \<open>What one pass of the loop body decides for cell \<open>i\<close>.\<close>

definition cfar_cell :: "float_arith \<Rightarrow> real list \<Rightarrow> int \<Rightarrow> int \<Rightarrow> real \<Rightarrow> nat \<Rightarrow> bool" where
  "cfar_cell ar data guard noise_win rate i =
     (noise_samples data guard noise_win i \<noteq> []
      \<and> exceeds ar (data ! i) (np_mean ar (map abs (noise_samples data guard noise_win i)))
            (rate_factor ar rate))"

subsection \<open>The detector as the specification words it\<close>

text \<open>
  The samples of \<open>data\<close> with index \<open>j\<close>, \<open>lo \<le> j < hi\<close>, clipped at the array bounds
  \<open>0 \<le> j < len(data)\<close>.
\<close>

definition clipped_window :: "real list \<Rightarrow> int \<Rightarrow> int \<Rightarrow> real list" where
  "clipped_window data lo hi =
     map (\<lambda>j. data ! j) [nat (max 0 lo) ..< nat (min (int (length data)) hi)]"

text \<open>
  Specification, section 4.3: two symmetric windows offset by \<open>guard_cells\<close> on each side
  of \<open>i\<close>, each spanning up to \<open>noise_window\<close> samples, clipped at the array bounds.
\<close>

definition spec_noise_window :: "real list \<Rightarrow> int \<Rightarrow> int \<Rightarrow> nat \<Rightarrow> real list" where
  "spec_noise_window data guard_cells noise_window i =
     clipped_window data (int i - guard_cells - noise_window) (int i - guard_cells)
     @ clipped_window data (int i + guard_cells + 1) (int i + guard_cells + 1 + noise_window)"

text \<open>The mean absolute value of a window, in exact arithmetic.\<close>

definition mean_abs :: "real list \<Rightarrow> real" where
  "mean_abs xs = sum_list (map abs xs) / real (length xs)"

text \<open>
  Specification, sections 4.3 and 7: \<open>cfar_threshold\<close> with the check the specification
  requires, \<open>InvalidProbability\<close> for a false-alarm rate outside the open interval (0,1).
\<close>

datatype cfar_error = InvalidProbability

definition cfar_threshold_spec :: "real list \<Rightarrow> int \<Rightarrow> int \<Rightarrow> real \<Rightarrow> cfar_error + bool list" where
  "cfar_threshold_spec data guard_cells noise_window false_alarm_rate =
     (if 0 < false_alarm_rate \<and> false_alarm_rate < 1
      then Inr (map (\<lambda>i. let ns = spec_noise_window data guard_cells noise_window i
                          in ns \<noteq> [] \<and> \<bar>data ! i\<bar> > mean_abs ns * (1 + 3 * sqrt (- ln false_alarm_rate)))
                    [0..<length data])
      else Inl InvalidProbability)"

section \<open>tracker.py: linear algebra on numpy arrays\<close>

text \<open>
  A one-dimensional array is a list, a two-dimensional array the list of its rows.  The
  tracker builds only 4-vectors, 2-vectors and \<open>4 \<times> 4\<close>, \<open>2 \<times> 4\<close>, \<open>4 \<times> 2\<close> and \<open>2 \<times> 2\<close>
  matrices, so no operation below meets operands of unequal shape.
\<close>

type_synonym vec = "real list"
type_synonym mat = "real list list"

definition dot :: "vec \<Rightarrow> vec \<Rightarrow> real" where
  "dot u v = sum_list (map2 (*) u v)"

text \<open>\<open>A @ v\<close> for a matrix and a vector.\<close>

definition mat_vec :: "mat \<Rightarrow> vec \<Rightarrow> vec" where
  "mat_vec A v = map (\<lambda>row. dot row v) A"

definition ncols :: "mat \<Rightarrow> nat" where
  "ncols A = (case A of [] \<Rightarrow> 0 | row # _ \<Rightarrow> length row)"

definition col :: "mat \<Rightarrow> nat \<Rightarrow> vec" where
  "col A j = map (\<lambda>row. row ! j) A"

text \<open>\<open>A.T\<close>\<close>

definition mat_T :: "mat \<Rightarrow> mat" where
  "mat_T A = map (col A) [0..<ncols A]"

text \<open>\<open>A @ B\<close> for two matrices.\<close>

definition mat_mul :: "mat \<Rightarrow> mat \<Rightarrow> mat" where
  "mat_mul A B = map (\<lambda>row. map (\<lambda>j. dot row (col B j)) [0..<ncols B]) A"

definition vec_add :: "vec \<Rightarrow> vec \<Rightarrow> vec" where
  "vec_add u v = map2 (+) u v"

definition vec_sub :: "vec \<Rightarrow> vec \<Rightarrow> vec" where
  "vec_sub u v = map2 (-) u v"

definition mat_add :: "mat \<Rightarrow> mat \<Rightarrow> mat" where
  "mat_add A B = map2 vec_add A B"

definition mat_sub :: "mat \<Rightarrow> mat \<Rightarrow> mat" where
  "mat_sub A B = map2 vec_sub A B"

text \<open>\<open>A * s\<close> for a scalar \<open>s\<close>.\<close>

definition mat_scale :: "mat \<Rightarrow> real \<Rightarrow> mat" where
  "mat_scale A s = map (map (\<lambda>x. x * s)) A"

text \<open>\<open>np.eye(n)\<close>\<close>

definition eye :: "nat \<Rightarrow> mat" where
  "eye n = map (\<lambda>i. map (\<lambda>j. if i = j then 1 else 0) [0..<n]) [0..<n]"

text \<open>The Euclidean norm of a vector: \<open>np.linalg.norm\<close> without rounding.\<close>

definition vec_norm :: "vec \<Rightarrow> real" where
  "vec_norm v = sqrt (sum_list (map (\<lambda>x. x\<^sup>2) v))"

text \<open>
  The inverse of a \<open>2 \<times> 2\<close> matrix by the adjugate, in exact arithmetic: what
  \<open>np.linalg.inv\<close> computes on the innovation covariance up to rounding.  A singular matrix
  raises \<open>LinAlgError\<close>, and so does an array that is not a \<open>2 \<times> 2\<close> matrix.
\<close>

fun inv_2x2 :: "mat \<Rightarrow> np_error + mat" where
  "inv_2x2 [[a, b], [c, d]] =
     (if a * d - b * c = 0 then Inl LinAlgError
      else Inr [[d / (a * d - b * c), - b / (a * d - b * c)],
                [- c / (a * d - b * c), a / (a * d - b * c)]])"
| "inv_2x2 _ = Inl LinAlgError"

text \<open>
  The two functions of \<open>np.linalg\<close> whose results decide what \<open>update\<close> does: \<open>norm\<close>, whose
  double is compared with the gate, and \<open>inv\<close>, which returns a matrix or raises
  \<open>LinAlgError\<close>.  Both compute in doubles, so they are parameters of the tracker.
\<close>

record linalg =
  linalg_norm :: "vec \<Rightarrow> real"
  linalg_inv :: "mat \<Rightarrow> np_error + mat"

text \<open>The two functions without rounding.\<close>

definition exact_linalg :: linalg where
  "exact_linalg = \<lparr>linalg_norm = vec_norm, linalg_inv = inv_2x2\<rparr>"

section \<open>tracker.py: Track and TargetTracker\<close>

text \<open>The dataclass \<open>Track\<close> with its fields \<open>id\<close>, \<open>state\<close> and \<open>P\<close>.\<close>

record track =
  tr_id :: int
  tr_state :: vec
  tr_P :: mat

text \<open>
  \<open>TargetTracker\<close>: the dict \<open>self.tracks\<close> in insertion order (the order in which Python
  iterates over it) and \<open>self.next_id\<close>.
\<close>

record tracker =
  tracks :: "(int \<times> track) list"
  next_id :: int

text \<open>\<open>TargetTracker.__init__\<close>; the argument \<open>max_tracks\<close> is not stored.\<close>

definition TargetTracker_init :: tracker where
  "TargetTracker_init = \<lparr>tracks = [], next_id = 1\<rparr>"

definition F_matrix :: "real \<Rightarrow> mat" where
  "F_matrix dt = [[1, 0, dt, 0], [0, 1, 0, dt], [0, 0, 1, 0], [0, 0, 0, 1]]"

text \<open>The body of the loop of \<open>predict\<close>, on one track.\<close>

definition predict_track :: "real \<Rightarrow> track \<Rightarrow> track" where
  "predict_track dt tr =
     (let F = F_matrix dt
      in tr\<lparr>tr_state := mat_vec F (tr_state tr),
            tr_P := mat_add (mat_mul (mat_mul F (tr_P tr)) (mat_T F)) (mat_scale (eye 4) 0.1)\<rparr>)"

text \<open>\<open>TargetTracker.predict(dt)\<close>: every track object is mutated in place.\<close>

definition predict :: "tracker \<Rightarrow> real \<Rightarrow> tracker" where
  "predict t dt = t\<lparr>tracks := map (\<lambda>(tid, tr). (tid, predict_track dt tr)) (tracks t)\<rparr>"

text \<open>
  \<open>d[k] = v\<close> on a dict: the value of an existing key is replaced where it stands, a new key
  is appended.
\<close>

fun dict_set :: "int \<Rightarrow> 'v \<Rightarrow> (int \<times> 'v) list \<Rightarrow> (int \<times> 'v) list" where
  "dict_set k v [] = [(k, v)]"
| "dict_set k v ((k', v') # kvs) =
     (if k' = k then (k', v) # kvs else (k', v') # dict_set k v kvs)"

text \<open>
  \<open>Track(self.next_id, np.array([d[0], d[1], 0.0, 0.0]), np.eye(4))\<close>.  A detection is a
  2D position, the pair of \<open>d[0]\<close> and \<open>d[1]\<close>.
\<close>

definition new_track :: "int \<Rightarrow> real \<times> real \<Rightarrow> track" where
  "new_track n d = \<lparr>tr_id = n, tr_state = [fst d, snd d, 0, 0], tr_P = eye 4\<rparr>"

text \<open>The two statements that create a track, in both branches of \<open>update\<close>.\<close>

definition create_track :: "tracker \<Rightarrow> real \<times> real \<Rightarrow> tracker" where
  "create_track t d =
     t\<lparr>tracks := dict_set (next_id t) (new_track (next_id t) d) (tracks t),
       next_id := next_id t + 1\<rparr>"

text \<open>\<open>np.linalg.norm(tr.state[:2] - d[:2])\<close>, the double that \<open>norm\<close> returns.\<close>

definition track_dist :: "linalg \<Rightarrow> track \<Rightarrow> real \<times> real \<Rightarrow> real" where
  "track_dist la tr d = linalg_norm la (vec_sub (take 2 (tr_state tr)) [fst d, snd d])"

text \<open>
  The nearest-neighbour loop over \<open>self.tracks.items()\<close>.  The accumulator is
  \<open>(best_id, best_dist)\<close>; \<open>None\<close> is its initial value \<open>(None, float('inf'))\<close>, which every
  distance is below.
\<close>

fun find_nearest ::
  "linalg \<Rightarrow> (int \<times> track) list \<Rightarrow> real \<times> real \<Rightarrow> (int \<times> real) option \<Rightarrow> (int \<times> real) option" where
  "find_nearest la [] d best = best"
| "find_nearest la ((tid, tr) # rest) d best =
     (let dist = track_dist la tr d
      in if (case best of None \<Rightarrow> True | Some (best_id, best_dist) \<Rightarrow> dist < best_dist)
         then find_nearest la rest d (Some (tid, dist))
         else find_nearest la rest d best)"

definition H_matrix :: mat where
  "H_matrix = [[1, 0, 0, 0], [0, 1, 0, 0]]"

text \<open>
  The branch \<open>if best_dist < 1000\<close> of \<open>update\<close>, on the track found.  \<open>np.linalg.inv\<close>
  raises before the track is assigned to.
\<close>

definition kalman_update :: "linalg \<Rightarrow> track \<Rightarrow> real \<times> real \<Rightarrow> np_error + track" where
  "kalman_update la tr d =
     (let z = [fst d, snd d];
          H = H_matrix;
          y = vec_sub z (mat_vec H (tr_state tr));
          S = mat_add (mat_mul (mat_mul H (tr_P tr)) (mat_T H)) (mat_scale (eye 2) 10)
      in case linalg_inv la S of
           Inl e \<Rightarrow> Inl e
         | Inr S_inv \<Rightarrow>
             let K = mat_mul (mat_mul (tr_P tr) (mat_T H)) S_inv
             in Inr (tr\<lparr>tr_state := vec_add (tr_state tr) (mat_vec K y),
                        tr_P := mat_mul (mat_sub (eye 4) (mat_mul K H)) (tr_P tr)\<rparr>))"

text \<open>The track object under key \<open>k\<close> mutated in place: no key is added or moved.\<close>

definition store_track :: "int \<Rightarrow> track \<Rightarrow> (int \<times> track) list \<Rightarrow> (int \<times> track) list" where
  "store_track k tr kvs = map (\<lambda>(k', v). if k' = k then (k', tr) else (k', v)) kvs"

text \<open>
  The body of \<open>for d in detections\<close>.  \<open>self.tracks[best_id]\<close> raises \<open>KeyError\<close> for a
  missing key.
\<close>

definition update_one :: "linalg \<Rightarrow> tracker \<Rightarrow> real \<times> real \<Rightarrow> np_error + tracker" where
  "update_one la t d =
     (if tracks t = [] then Inr (create_track t d)
      else
        case find_nearest la (tracks t) d None of
          None \<Rightarrow> Inr (create_track t d)
        | Some (best_id, best_dist) \<Rightarrow>
            if best_dist < 1000 then
              (case map_of (tracks t) best_id of
                 None \<Rightarrow> Inl KeyError
               | Some tr \<Rightarrow>
                   (case kalman_update la tr d of
                      Inl e \<Rightarrow> Inl e
                    | Inr tr' \<Rightarrow> Inr (t\<lparr>tracks := store_track best_id tr' (tracks t)\<rparr>)))
            else Inr (create_track t d))"

text \<open>
  \<open>TargetTracker.update(detections)\<close>.  The result is the tracker as the call leaves it
  and the exception that ended the call, if one did: the detections before the failing
  one have been processed, the failing one has changed nothing.
\<close>

fun update :: "linalg \<Rightarrow> tracker \<Rightarrow> (real \<times> real) list \<Rightarrow> tracker \<times> np_error option" where
  "update la t [] = (t, None)"
| "update la t (d # ds) =
     (case update_one la t d of
        Inl e \<Rightarrow> (t, Some e)
      | Inr t' \<Rightarrow> update la t' ds)"

subsection \<open>Sequences of calls\<close>

datatype tracker_call = Predict real | Update "(real \<times> real) list"

text \<open>One call on the tracker object; a caller that catches an exception goes on with it.\<close>

fun call :: "linalg \<Rightarrow> tracker \<Rightarrow> tracker_call \<Rightarrow> tracker" where
  "call la t (Predict dt) = predict t dt"
| "call la t (Update detections) = fst (update la t detections)"

definition run_calls :: "linalg \<Rightarrow> tracker \<Rightarrow> tracker_call list \<Rightarrow> tracker" where
  "run_calls la t cs = foldl (call la) t cs"

text \<open>The keys of \<open>self.tracks\<close>, in insertion order.\<close>

definition track_ids :: "tracker \<Rightarrow> int list" where
  "track_ids t = map fst (tracks t)"

text \<open>Every key of \<open>self.tracks\<close> with the \<open>id\<close> field of the track stored under it.\<close>

definition id_pairs :: "tracker \<Rightarrow> (int \<times> int) list" where
  "id_pairs t = map (\<lambda>(k, tr). (k, tr_id tr)) (tracks t)"

text \<open>
  Entries added to \<open>id_pairs\<close> from a state whose \<open>next_id\<close> was \<open>n\<close>: each key is at least
  \<open>n\<close> and is the \<open>id\<close> of its track.
\<close>

definition fresh_ids :: "int \<Rightarrow> (int \<times> int) list \<Rightarrow> bool" where
  "fresh_ids n new = list_all (\<lambda>(k, i). n \<le> k \<and> i = k) new"

text \<open>The invariant of the tracker that the proofs below carry through every call.\<close>

definition tracker_inv :: "tracker \<Rightarrow> bool" where
  "tracker_inv t \<longleftrightarrow>
     sorted_wrt (<) (track_ids t)
     \<and> (\<forall>k \<in> set (track_ids t). 1 \<le> k \<and> k < next_id t)
     \<and> (\<forall>(k, tr) \<in> set (tracks t). tr_id tr = k)
     \<and> 1 \<le> next_id t"

section \<open>tracker.py: SimpleClassifier\<close>

text \<open>
  \<open>SimpleClassifier\<close> with its fields \<open>model\<close> and \<open>trained\<close>.  The model is scikit-learn's
  \<open>SVC\<close>; its state is a value of a type \<open>'m\<close>, and its methods \<open>fit\<close> and \<open>predict\<close> are
  parameters of the functions below.  Labels are strings.
\<close>

record 'm classifier =
  model :: 'm
  trained :: bool

text \<open>\<open>SimpleClassifier.__init__\<close>; \<open>svc\<close> is the new \<open>SVC(probability=True)\<close>.\<close>

definition SimpleClassifier_init :: "'m \<Rightarrow> 'm classifier" where
  "SimpleClassifier_init svc = \<lparr>model = svc, trained = False\<rparr>"

text \<open>
  \<open>np.array_split(xs, n)\<close>: \<open>n\<close> contiguous sections, the first \<open>len(xs) mod n\<close> of them one
  entry longer than the rest.
\<close>

definition array_split :: "'a list \<Rightarrow> nat \<Rightarrow> 'a list list" where
  "array_split xs n =
     (let each = length xs div n;
          extras = length xs mod n
      in map (\<lambda>i. take (if i < extras then each + 1 else each)
                       (drop (i * each + min i extras) xs))
           [0..<n])"

text \<open>\<open>b.mean()\<close>; the mean of an empty array is \<open>nan\<close>, which \<open>None\<close> stands for.\<close>

definition band_mean :: "real list \<Rightarrow> real option" where
  "band_mean b = (if b = [] then None else Some (sum_list b / real (length b)))"

text \<open>\<open>SimpleClassifier.featurize(spectrum)\<close>\<close>

definition featurize :: "complex list \<Rightarrow> real option list" where
  "featurize spectrum = map band_mean (array_split (map cmod spectrum) 8)"

text \<open>
  \<open>SimpleClassifier.train(X, y)\<close>: the flag is set after \<open>fit\<close> has returned, so not when
  \<open>fit\<close> raises.
\<close>

definition classifier_train ::
  "('m \<Rightarrow> 'x \<Rightarrow> 'y \<Rightarrow> np_error + 'm) \<Rightarrow> 'm classifier \<Rightarrow> 'x \<Rightarrow> 'y \<Rightarrow> np_error + 'm classifier" where
  "classifier_train fit c X y =
     (case fit (model c) X y of
        Inl e \<Rightarrow> Inl e
      | Inr m \<Rightarrow> Inr (c\<lparr>model := m, trained := True\<rparr>))"

text \<open>
  \<open>SimpleClassifier.predict(spectrum)\<close>.  \<open>reshape(1, -1)\<close> makes the feature vector the
  only row of a matrix, \<open>self.model.predict\<close> returns one label for every row, and \<open>[0]\<close>
  takes the first.  The method assigns to no field.
\<close>

definition classifier_predict ::
  "('m \<Rightarrow> real option list list \<Rightarrow> np_error + string list) \<Rightarrow>
   'm classifier \<Rightarrow> complex list \<Rightarrow> np_error + string" where
  "classifier_predict svc_predict c spectrum =
     (if \<not> trained c then Inr ''unknown''
      else
        let feat = [featurize spectrum]
        in case svc_predict (model c) feat of
             Inl e \<Rightarrow> Inl e
           | Inr labels \<Rightarrow> (case labels of [] \<Rightarrow> Inl IndexError | l # _ \<Rightarrow> Inr l))"

section \<open>Properties of the steering vector\<close>

lemma exp_phase: "exp (- \<i> * complex_of_real k * complex_of_real x) = cis (- k * x)"
proof -
  have "- \<i> * complex_of_real k * complex_of_real x = \<i> * complex_of_real (- k * x)"
    by simp
  then show ?thesis
    by (simp only: cis_conv_exp)
qed

lemma direction_unit: "dot3 (direction az el) (direction az el) = 1"
proof -
  have "(cos el * cos az) * (cos el * cos az) + (cos el * sin az) * (cos el * sin az) + sin el * sin el
      = (cos el * cos el) * (cos az * cos az + sin az * sin az) + sin el * sin el"
    by (simp only: algebra_simps)
  also have "\<dots> = cos el * cos el + sin el * sin el"
    by (simp only: sin_cos_squared_add3 mult_1_right)
  also have "\<dots> = 1"
    by (rule sin_cos_squared_add3)
  finally show ?thesis
    by (simp only: direction_def dot3.simps)
qed

lemma direction_explicit:
  "dot3 (px, py, pz) (direction (deg2rad az_deg) (deg2rad el_deg))
     = px * (cos (el_deg * pi / 180) * cos (az_deg * pi / 180))
     + py * (cos (el_deg * pi / 180) * sin (az_deg * pi / 180))
     + pz * sin (el_deg * pi / 180)"
  by (simp add: direction_def deg2rad_def)

lemma unit_explicit:
  "(cos el * cos az)\<^sup>2 + (cos el * sin az)\<^sup>2 + (sin el)\<^sup>2 = (1::real)"
  using direction_unit [of az el] by (simp add: direction_def power2_eq_square)

text \<open>
  C1: for a non-zero sound speed \<open>c\<close>, \<open>steering_vector\<close> returns one weight per
  element.  Every weight has modulus 1 and is \<open>cis \<phi>\<close> with the phase
  \<open>\<phi> = - (2 \<pi> freq / c) * (p \<bullet> d)\<close> for the element position \<open>p = (px, py, pz)\<close> and the
  direction \<open>d = (cos el * cos az, cos el * sin az, sin el)\<close>, where \<open>az\<close> and \<open>el\<close> are the
  azimuth and the elevation in radians, \<open>az_deg * \<pi> / 180\<close> and \<open>el_deg * \<pi> / 180\<close>; and
  \<open>d\<close> is a unit vector.
\<close>

theorem steering_vector_unit_magnitude:
  assumes "c \<noteq> 0"
  shows "\<exists>sv. steering_vector positions az_deg el_deg freq c = Inr sv
          \<and> length sv = length positions
          \<and> (\<forall>i < length positions.
                cmod (sv ! i) = 1
              \<and> (case positions ! i of
                   (px, py, pz) \<Rightarrow>
                     sv ! i = cis (- (2 * pi * freq / c)
                                    * (px * (cos (el_deg * pi / 180) * cos (az_deg * pi / 180))
                                       + py * (cos (el_deg * pi / 180) * sin (az_deg * pi / 180))
                                       + pz * sin (el_deg * pi / 180)))))
          \<and> (cos (el_deg * pi / 180) * cos (az_deg * pi / 180))\<^sup>2
            + (cos (el_deg * pi / 180) * sin (az_deg * pi / 180))\<^sup>2
            + (sin (el_deg * pi / 180))\<^sup>2 = 1"
proof -
  let ?d = "direction (deg2rad az_deg) (deg2rad el_deg)"
  let ?sv = "map (\<lambda>p. exp (- \<i> * complex_of_real (2 * pi * freq / c) * complex_of_real (dot3 p ?d))) positions"
  have run: "steering_vector positions az_deg el_deg freq c = Inr ?sv"
    using assms by (simp only: steering_vector_def Let_def if_False)
  have comp: "?sv ! i = cis (- (2 * pi * freq / c) * dot3 (positions ! i) ?d)" if "i < length positions" for i
    using that by (simp only: nth_map exp_phase)
  have mod1: "cmod (?sv ! i) = 1" if "i < length positions" for i
    using comp [OF that] by (simp only: norm_cis)
  have phase: "case positions ! i of
                   (px, py, pz) \<Rightarrow>
                     ?sv ! i = cis (- (2 * pi * freq / c)
                                    * (px * (cos (el_deg * pi / 180) * cos (az_deg * pi / 180))
                                       + py * (cos (el_deg * pi / 180) * sin (az_deg * pi / 180))
                                       + pz * sin (el_deg * pi / 180)))"
    if "i < length positions" for i
  proof -
    obtain px py pz where p: "positions ! i = (px, py, pz)"
      by (cases "positions ! i") auto
    show ?thesis
      using comp [OF that] by (simp only: p direction_explicit prod.case)
  qed
  show ?thesis
    using run mod1 phase unit_explicit [of "el_deg * pi / 180" "az_deg * pi / 180"]
    by (intro exI [of _ ?sv]) simp
qed

text \<open>
  C1 at azimuth 90 and elevation 60 degrees, 375 Hz and the default sound speed, where
  \<open>2 \<pi> freq / c = \<pi> / 2\<close> and \<open>d = (0, 1/2, sqrt 3 / 2)\<close>: the element \<open>(0, 2, 0)\<close> has
  phase \<open>- \<pi> / 2\<close> and weight \<open>- \<i>\<close>, the element \<open>(0, 0, 1)\<close> has phase
  \<open>- \<pi> sqrt 3 / 4\<close>.
\<close>

theorem steering_vector_unit_magnitude_witness:
  "(1500::real) \<noteq> 0
   \<and> (\<exists>sv. steering_vector [(0, 2, 0), (0, 0, 1)] 90 60 375 1500 = Inr sv \<and> length sv = 2
          \<and> cmod (sv ! 0) = 1 \<and> sv ! 0 = - \<i> \<and> sv ! 1 = cis (- (pi * sqrt 3 / 4)))"
  using steering_vector_unit_magnitude [of 1500 "[(0, 2, 0), (0, 0, 1)]" 90 60 375]
  by (auto simp add: cos_60 sin_60 less_Suc_eq)

section \<open>Properties of the beamformers\<close>

lemma sv0: "steering_vector [(0, 0, 0)] az el freq 1500 = Inr [1]"
  by (simp add: steering_vector_def Let_def direction_def)

lemma sv0_3: "steering_vector [(0, 0, 0), (0, 0, 0), (0, 0, 0)] az el freq 1500 = Inr [1, 1, 1]"
  by (simp add: steering_vector_def Let_def direction_def)

lemma steering_vector_runs:
  assumes "c \<noteq> 0"
  shows "\<exists>sv. steering_vector positions az el freq c = Inr sv \<and> length sv = length positions"
  using assms by (simp add: steering_vector_def Let_def)

lemma broadcast_mul_error:
  assumes "length rows \<noteq> length sv" "length rows \<noteq> 1" "length sv \<noteq> 1"
  shows "broadcast_mul rows sv = Inl ValueError"
  using assms by (simp add: broadcast_mul_def)

lemma broadcast_mul_runs:
  assumes "length rows = length sv \<or> length rows = 1 \<or> length sv = 1"
  shows "\<exists>steered. broadcast_mul rows sv = Inr steered"
  using assms by (auto simp add: broadcast_mul_def)

lemma length_sum_axis0: "length (sum_axis0 N rows) = N"
  by (simp add: sum_axis0_def)

lemma length_mvdr_covariance: "length (mvdr_covariance data freq reg) = length (arr_rows data)"
  by (simp add: mvdr_covariance_def covariance_def Let_def)

lemma delay_and_sum_error:
  assumes "c \<noteq> 0" "length (arr_rows data) \<noteq> length positions"
    "length (arr_rows data) \<noteq> 1" "length positions \<noteq> 1"
  shows "delay_and_sum data positions az el fs freq c = Inl ValueError"
proof -
  obtain sv where sv: "steering_vector positions az el freq c = Inr sv" "length sv = length positions"
    using steering_vector_runs [OF assms(1)] by blast
  then show ?thesis
    using assms by (simp add: delay_and_sum_def broadcast_mul_error)
qed

lemma delay_and_sum_runs:
  assumes "c \<noteq> 0"
    "length (arr_rows data) = length positions \<or> length (arr_rows data) = 1 \<or> length positions = 1"
  shows "\<exists>ts. delay_and_sum data positions az el fs freq c = Inr ts \<and> length ts = arr_width data"
proof -
  obtain sv where sv: "steering_vector positions az el freq c = Inr sv" "length sv = length positions"
    using steering_vector_runs [OF assms(1)] by blast
  then obtain steered where "broadcast_mul (arr_rows data) sv = Inr steered"
    using broadcast_mul_runs [of "arr_rows data" sv] assms(2) by auto
  then show ?thesis
    using sv by (simp add: delay_and_sum_def length_sum_axis0)
qed

lemma mvdr_beamform_mismatch:
  assumes "length (arr_rows data) \<noteq> length positions"
  shows "\<exists>e. mvdr_beamform inv_fn data positions az el freq reg = Inl e"
proof -
  obtain sv where sv: "steering_vector positions az el freq 1500 = Inr sv" "length sv = length positions"
    using steering_vector_runs [of 1500 positions az el freq] by auto
  then show ?thesis
    using assms
    by (simp add: mvdr_beamform_def Let_def length_mvdr_covariance split: sum.splits)
qed

lemma mvdr_beamform_mismatch_ValueError:
  assumes "length (arr_rows data) \<noteq> length positions" "0 < arr_width data"
    "inv_fn (mvdr_covariance data freq reg) = Inr R_inv"
  shows "mvdr_beamform inv_fn data positions az el freq reg = Inl ValueError"
proof -
  obtain sv where sv: "steering_vector positions az el freq 1500 = Inr sv" "length sv = length positions"
    using steering_vector_runs [of 1500 positions az el freq] by auto
  then show ?thesis
    using assms
    by (simp add: mvdr_beamform_def Let_def length_mvdr_covariance)
qed

lemma mvdr_beamform_runs:
  assumes "length (arr_rows data) = length positions" "0 < arr_width data"
    "inv_fn (mvdr_covariance data freq reg) = Inr R_inv"
  shows "\<exists>ts. mvdr_beamform inv_fn data positions az el freq reg = Inr ts \<and> length ts = arr_width data"
proof -
  obtain sv where sv: "steering_vector positions az el freq 1500 = Inr sv" "length sv = length positions"
    using steering_vector_runs [of 1500 positions az el freq] by auto
  then show ?thesis
    using assms
    by (simp add: mvdr_beamform_def Let_def length_mvdr_covariance)
qed

lemma cov1: "mvdr_covariance \<lparr>arr_rows = [[2]], arr_width = 1\<rparr> 3000 1 = [[1]]"
  by (simp add: mvdr_covariance_def covariance_def fft_def bin_index_def py_int_def py_slice_def
      cdot_def)

text \<open>
  C3 fails on the code: a snapshot of two channels and a geometry of one position differ
  in their element counts, and \<open>delay_and_sum\<close> returns a time series, numpy repeating
  the single steering weight for both channels.
\<close>

theorem beamformer_shapes_counterexample:
  "length (arr_rows \<lparr>arr_rows = [[1], [3]], arr_width = 1\<rparr>) \<noteq> length [(0, 0, 0) :: vec3]
   \<and> delay_and_sum \<lparr>arr_rows = [[1], [3]], arr_width = 1\<rparr> [(0, 0, 0)] 0 0 44100 3000 1500 = Inr [2]"
  by (simp add: delay_and_sum_def sv0 broadcast_mul_def sum_axis0_def)

text \<open>
  C3 as amended.  The code has no check of its own and no \<open>DimensionMismatch\<close>; what
  fails is numpy's shape rule, with \<open>ValueError\<close>.  For a non-zero sound speed,
  \<open>delay_and_sum\<close> raises \<open>ValueError\<close> exactly when the element counts differ and
  neither is 1, and returns a series of the sample length otherwise.  \<open>mvdr_beamform\<close>
  fails whenever the counts differ; on a snapshot with at least one sample whose
  covariance \<open>np.linalg.inv\<close> inverts, it returns a series of the sample length when the
  counts agree and raises \<open>ValueError\<close> when they differ.
\<close>

theorem beamformer_shapes:
  "(c \<noteq> 0 \<longrightarrow>
      (length (arr_rows data) \<noteq> length positions \<and> length (arr_rows data) \<noteq> 1
         \<and> length positions \<noteq> 1
         \<longrightarrow> delay_and_sum data positions az el fs freq c = Inl ValueError)
    \<and> (length (arr_rows data) = length positions \<or> length (arr_rows data) = 1
         \<or> length positions = 1
         \<longrightarrow> (\<exists>ts. delay_and_sum data positions az el fs freq c = Inr ts
                   \<and> length ts = arr_width data)))
   \<and> (length (arr_rows data) \<noteq> length positions
         \<longrightarrow> (\<exists>e. mvdr_beamform inv_fn data positions az el freq reg = Inl e))
   \<and> (0 < arr_width data \<and> (\<exists>R_inv. inv_fn (mvdr_covariance data freq reg) = Inr R_inv)
         \<longrightarrow> (if length (arr_rows data) = length positions
              then \<exists>ts. mvdr_beamform inv_fn data positions az el freq reg = Inr ts
                        \<and> length ts = arr_width data
              else mvdr_beamform inv_fn data positions az el freq reg = Inl ValueError))"
  using delay_and_sum_error [of c data positions az el fs freq]
    delay_and_sum_runs [of c data positions az el fs freq]
    mvdr_beamform_mismatch [of data positions inv_fn az el freq reg]
    mvdr_beamform_mismatch_ValueError [of data positions inv_fn freq reg _ az el]
    mvdr_beamform_runs [of data positions inv_fn freq reg _ az el]
  by auto

text \<open>
  C3 as amended, at a snapshot of two channels with three positions (both beamformers
  fail), at one channel with one position (both return a series of one sample), and at one
  channel with three positions (\<open>mvdr_beamform\<close> raises
  \<open>ValueError\<close>).
\<close>

theorem beamformer_shapes_witness:
  "(1500 :: real) \<noteq> 0
   \<and> length (arr_rows \<lparr>arr_rows = [[1], [3]], arr_width = 1\<rparr>) = 2
   \<and> length [(0, 0, 0) :: vec3, (0, 0, 0), (0, 0, 0)] = 3
   \<and> delay_and_sum \<lparr>arr_rows = [[1], [3]], arr_width = 1\<rparr> [(0, 0, 0), (0, 0, 0), (0, 0, 0)]
         0 0 44100 3000 1500 = Inl ValueError
   \<and> (\<exists>e. mvdr_beamform inv_1x1 \<lparr>arr_rows = [[1], [3]], arr_width = 1\<rparr>
               [(0, 0, 0), (0, 0, 0), (0, 0, 0)] 0 0 3000 1 = Inl e)
   \<and> inv_1x1 (mvdr_covariance \<lparr>arr_rows = [[2]], arr_width = 1\<rparr> 3000 1) = Inr [[1]]
   \<and> (\<exists>ts. delay_and_sum \<lparr>arr_rows = [[2]], arr_width = 1\<rparr> [(0, 0, 0)] 0 0 44100 3000 1500 = Inr ts
           \<and> length ts = 1)
   \<and> (\<exists>ts. mvdr_beamform inv_1x1 \<lparr>arr_rows = [[2]], arr_width = 1\<rparr> [(0, 0, 0)] 0 0 3000 1 = Inr ts
           \<and> length ts = 1)
   \<and> mvdr_beamform inv_1x1 \<lparr>arr_rows = [[2]], arr_width = 1\<rparr> [(0, 0, 0), (0, 0, 0), (0, 0, 0)]
        0 0 3000 1 = Inl ValueError"
proof -
  have c1: "inv_1x1 (mvdr_covariance \<lparr>arr_rows = [[2]], arr_width = 1\<rparr> 3000 1) = Inr [[1]]"
    by (simp only: cov1) simp
  note A = beamformer_shapes [of 1500 "\<lparr>arr_rows = [[1], [3]], arr_width = 1\<rparr>"
      "[(0, 0, 0), (0, 0, 0), (0, 0, 0)]" 0 0 44100 3000 inv_1x1 1]
  note B = beamformer_shapes [of 1500 "\<lparr>arr_rows = [[2]], arr_width = 1\<rparr>" "[(0, 0, 0)]"
      0 0 44100 3000 inv_1x1 1]
  note C = beamformer_shapes [of 1500 "\<lparr>arr_rows = [[2]], arr_width = 1\<rparr>"
      "[(0, 0, 0), (0, 0, 0), (0, 0, 0)]" 0 0 44100 3000 inv_1x1 1]
  from A have a1: "delay_and_sum \<lparr>arr_rows = [[1], [3]], arr_width = 1\<rparr> [(0, 0, 0), (0, 0, 0), (0, 0, 0)]
         0 0 44100 3000 1500 = Inl ValueError"
    by simp
  from A have a2: "\<exists>e. mvdr_beamform inv_1x1 \<lparr>arr_rows = [[1], [3]], arr_width = 1\<rparr>
               [(0, 0, 0), (0, 0, 0), (0, 0, 0)] 0 0 3000 1 = Inl e"
    by simp
  from B have b1: "\<exists>ts. delay_and_sum \<lparr>arr_rows = [[2]], arr_width = 1\<rparr> [(0, 0, 0)] 0 0 44100 3000 1500 = Inr ts
           \<and> length ts = 1"
    by simp
  from B c1 have b2: "\<exists>ts. mvdr_beamform inv_1x1 \<lparr>arr_rows = [[2]], arr_width = 1\<rparr> [(0, 0, 0)] 0 0 3000 1 = Inr ts
           \<and> length ts = 1"
    by simp
  from C c1 have c2: "mvdr_beamform inv_1x1 \<lparr>arr_rows = [[2]], arr_width = 1\<rparr> [(0, 0, 0), (0, 0, 0), (0, 0, 0)]
        0 0 3000 1 = Inl ValueError"
    by simp
  from a1 a2 b1 b2 c1 c2 show ?thesis
    by simp
qed

text \<open>
  C5, evaluated on the code: for 1024 samples taken at 44100 Hz and a target of 3000 Hz
  the code selects bin 2, the bin nearest 3000 Hz is bin 70; for 8 samples the index is
  375 and the slice \<open>X[:, 375:376]\<close> holds no bin at all; and on a snapshot of zero samples
  the transform raises before the fallback \<open>bin_idx = 0\<close> is used.
\<close>

theorem mvdr_bin_index_not_nearest:
  "bin_index 3000 1024 = 2 \<and> nearest_bin_spec 44100 3000 1024 = 70
   \<and> bin_index 3000 8 = 375 \<and> py_slice (fft [1, 2, 3, 4, 5, 6, 7, 8]) 375 376 = []
   \<and> bin_index 3000 0 = 0
   \<and> mvdr_beamform inv_1x1 \<lparr>arr_rows = [[]], arr_width = 0\<rparr> [(0, 0, 0)] 0 0 3000 1
       = Inl ValueError"
  by (simp add: bin_index_def py_int_def nearest_bin_spec_def round_def py_slice_def fft_def
      mvdr_beamform_def)

section \<open>Properties of the CFAR detector\<close>

subsection \<open>Slices and windows\<close>

lemma take_drop_nth: "take k (drop l xs) = map (\<lambda>j. xs ! j) [l ..< min (l + k) (length xs)]"
  by (rule nth_equalityI) auto

lemma py_slice_nonneg:
  assumes "0 \<le> a" "0 \<le> b"
  shows "py_slice xs a b = map (\<lambda>j. xs ! j) [nat a ..< nat (min b (int (length xs)))]"
proof (cases "a \<le> int (length xs)")
  case True
  have "min (nat a + nat (min b (int (length xs)) - a)) (length xs) = nat (min b (int (length xs)))
      \<or> nat (min b (int (length xs))) \<le> nat a"
    using assms True by linarith
  then have "[nat a ..< min (nat a + nat (min b (int (length xs)) - a)) (length xs)]
           = [nat a ..< nat (min b (int (length xs)))]"
    using assms True by auto
  then show ?thesis
    using assms True by (simp add: py_slice_def Let_def take_drop_nth min_absorb1)
next
  case False
  then show ?thesis
    using assms by (simp add: py_slice_def Let_def min_absorb2)
qed

lemma py_slice_clipped:
  assumes "0 \<le> a" "0 \<le> b"
  shows "py_slice xs a b = clipped_window xs a b"
  using assms by (simp add: py_slice_nonneg clipped_window_def min.commute)

lemma clipped_window_left:
  "clipped_window xs (max 0 lo) (max 0 hi) = clipped_window xs lo hi"
proof -
  have "nat (min (int (length xs)) (max 0 hi)) = nat (min (int (length xs)) hi)"
    by linarith
  then show ?thesis
    by (simp add: clipped_window_def)
qed

lemma clipped_window_right:
  assumes "0 \<le> lo"
  shows "clipped_window xs (min (int (length xs)) lo) (min (int (length xs)) hi)
           = clipped_window xs lo hi"
proof (cases "lo \<le> int (length xs)")
  case True
  then show ?thesis
    using assms by (simp add: clipped_window_def min_absorb2)
next
  case False
  then have "nat (min (int (length xs)) hi) \<le> nat lo" and "nat (min (int (length xs)) hi) \<le> length xs"
    by linarith+
  then show ?thesis
    using assms False by (simp add: clipped_window_def min_absorb1)
qed

lemma noise_samples_spec:
  assumes "0 \<le> guard" "0 \<le> noise_win"
  shows "noise_samples data guard noise_win i = spec_noise_window data guard noise_win i"
proof -
  let ?N = "int (length data)"
  have l: "py_slice data (max 0 (int i - guard - noise_win)) (max 0 (int i - guard))
         = clipped_window data (int i - guard - noise_win) (int i - guard)"
    by (simp only: py_slice_clipped max.cobounded1 clipped_window_left)
  have "0 \<le> min ?N (int i + guard + 1)" "0 \<le> min ?N (int i + guard + 1 + noise_win)"
       "0 \<le> int i + guard + 1"
    using assms by linarith+
  then have r: "py_slice data (min ?N (int i + guard + 1)) (min ?N (int i + guard + 1 + noise_win))
         = clipped_window data (int i + guard + 1) (int i + guard + 1 + noise_win)"
    by (simp only: py_slice_clipped clipped_window_right)
  show ?thesis
    by (simp only: noise_samples_def Let_def spec_noise_window_def l r)
qed

subsection \<open>The loop\<close>

lemma cfar_loop_length: "length (cfar_loop ar data guard noise_win rate js out) = length out"
  by (induction js arbitrary: out) (simp_all add: Let_def)

lemma cfar_loop_append:
  "cfar_loop ar data guard noise_win rate (js @ ks) out
     = cfar_loop ar data guard noise_win rate ks (cfar_loop ar data guard noise_win rate js out)"
  by (induction js arbitrary: out) (simp_all add: Let_def)

lemma cfar_loop_upt:
  assumes "n \<le> length out" "i < length out"
  shows "cfar_loop ar data guard noise_win rate [0..<n] out ! i
           = (if i < n then (if noise_samples data guard noise_win i = [] then out ! i
                             else cfar_cell ar data guard noise_win rate i)
              else out ! i)"
  using assms
proof (induction n)
  case 0
  then show ?case by simp
next
  case (Suc n)
  let ?prev = "cfar_loop ar data guard noise_win rate [0..<n] out"
  have len: "length ?prev = length out"
    by (rule cfar_loop_length)
  have step: "cfar_loop ar data guard noise_win rate [0..<Suc n] out
                = cfar_loop ar data guard noise_win rate [n] ?prev"
    by (simp only: upt_Suc_append [OF le0] cfar_loop_append)
  have prev: "?prev ! i = (if i < n then (if noise_samples data guard noise_win i = [] then out ! i
                             else cfar_cell ar data guard noise_win rate i)
              else out ! i)"
    using Suc.prems Suc.IH by simp
  show ?case
  proof (cases "i = n")
    case True
    then show ?thesis
      using Suc.prems prev len
      by (simp only: step) (simp add: Let_def cfar_cell_def)
  next
    case False
    then show ?thesis
      using Suc.prems prev len
      by (simp only: step) (simp add: Let_def)
  qed
qed

lemma simple_cfar_length: "length (simple_cfar ar data guard noise_win rate) = length data"
  by (simp add: simple_cfar_def cfar_loop_length)

lemma simple_cfar_nth:
  assumes "i < length data"
  shows "simple_cfar ar data guard noise_win rate ! i = cfar_cell ar data guard noise_win rate i"
  using assms by (simp add: simple_cfar_def cfar_loop_upt cfar_cell_def)

lemma simple_cfar_nonfinite:
  assumes "rate_factor ar rate = None"
  shows "simple_cfar ar data guard noise_win rate = replicate (length data) False"
proof (rule nth_equalityI)
  show "length (simple_cfar ar data guard noise_win rate) = length (replicate (length data) False)"
    by (simp add: simple_cfar_length)
next
  fix i assume "i < length (simple_cfar ar data guard noise_win rate)"
  then have "i < length data"
    by (simp add: simple_cfar_length)
  then show "simple_cfar ar data guard noise_win rate ! i = replicate (length data) False ! i"
    using assms by (simp add: simple_cfar_nth cfar_cell_def exceeds_def)
qed

lemma half_factor:
  "1 \<le> 1 + 3 * sqrt (- ln (1 / 2 :: real))" "1 + 3 * sqrt (- ln (1 / 2 :: real)) \<le> 4"
proof -
  have l: "- ln (1 / 2 :: real) = ln 2"
    by (simp add: ln_div)
  have "0 \<le> ln (2 :: real)" "ln (2 :: real) \<le> 1"
    using ln_2_less_1 by simp_all
  then have "0 \<le> sqrt (ln 2)" "sqrt (ln 2) \<le> 1"
    by simp_all
  then show "1 \<le> 1 + 3 * sqrt (- ln (1 / 2 :: real))" "1 + 3 * sqrt (- ln (1 / 2 :: real)) \<le> 4"
    by (simp_all add: l)
qed

text \<open>
  C2 fails on the code for a negative guard: at \<open>guard = - 4\<close> the right slice
  \<open>data[-3:-2]\<close> counts from the end, so the noise samples of cell 0 are \<open>[1, 99]\<close> where the
  clipped windows of the claim hold \<open>[1]\<close>.  At rate 1/2 the sample 5 exceeds the claim's
  threshold (at most 4) and the code does not flag it (its threshold is at least 50).
\<close>

theorem simple_cfar_flags_counterexample:
  "noise_samples [5, 99, 0, 1] (- 4) 1 0 = [1, 99]
   \<and> spec_noise_window [5, 99, 0, 1] (- 4) 1 0 = [1]
   \<and> \<bar>[5, 99, 0, 1] ! 0\<bar> > (sum_list (map abs [1]) / real (length [1 :: real])) * (1 + 3 * sqrt (- ln (1 / 2)))
   \<and> \<not> simple_cfar exact_arith [5, 99, 0, 1] (- 4) 1 (1 / 2) ! 0"
proof -
  define f :: real where "f = 1 + 3 * sqrt (- ln (1 / 2))"
  have f: "1 \<le> f" "f \<le> 4"
    using half_factor by (simp_all only: f_def)
  have rf: "rate_factor exact_arith (1 / 2) = Some f"
    by (simp add: rate_factor_def exact_arith_def f_def)
  have ns: "noise_samples [5, 99, 0, 1] (- 4) 1 0 = [1, 99]"
    by (simp add: noise_samples_def py_slice_def)
  have w: "spec_noise_window [5, 99, 0, 1] (- 4) 1 0 = [1]"
    by (simp add: spec_noise_window_def clipped_window_def upt_rec)
  have cell: "cfar_cell exact_arith [5, 99, 0, 1] (- 4) 1 (1 / 2) 0 = (5 > 50 * f)"
    by (simp only: cfar_cell_def ns rf) (simp add: exceeds_def exact_arith_def)
  have a: "\<not> simple_cfar exact_arith [5, 99, 0, 1] (- 4) 1 (1 / 2) ! 0"
    using f(1) by (simp add: simple_cfar_nth cell)
  have b: "\<bar>[5, 99, 0, 1] ! 0\<bar> > (sum_list (map abs [1]) / real (length [1 :: real])) * f"
    using f(2) by simp
  show ?thesis
    using ns w a b [unfolded f_def] by (intro conjI)
qed

text \<open>
  C2 as amended: for non-negative \<open>guard\<close> and \<open>noise_win\<close> the mask has the length of the
  input and an index whose two clipped windows hold no sample is not flagged.  For
  \<open>0 < rate \<le> 1\<close> index \<open>i\<close> is flagged exactly when its windows \<open>w\<close> hold a sample and
  \<open>|data[i]|\<close> exceeds the threshold that numpy computes: the product of the noise level
  \<open>np.mean(np.abs(w))\<close> and the factor \<open>1 + 3*np.sqrt(-np.log(rate))\<close>, each operation in
  doubles.  In exact arithmetic that threshold is
  \<open>(sum of |w\<^sub>j| / length of w) * (1 + 3 * sqrt (- ln rate))\<close>.  For any other rate the
  threshold is not a finite number and no index is flagged.
\<close>

theorem simple_cfar_flags:
  assumes "0 \<le> guard" and "0 \<le> noise_win"
  shows "length (simple_cfar ar data guard noise_win rate) = length data
       \<and> (\<forall>i < length data.
            (spec_noise_window data guard noise_win i = []
               \<longrightarrow> \<not> simple_cfar ar data guard noise_win rate ! i)
          \<and> (0 < rate \<and> rate \<le> 1
               \<longrightarrow> simple_cfar ar data guard noise_win rate ! i
                     = (spec_noise_window data guard noise_win i \<noteq> []
                        \<and> \<bar>data ! i\<bar>
                            > fl_mul ar (np_mean ar (map abs (spec_noise_window data guard noise_win i)))
                                (fl_add ar 1 (fl_mul ar 3 (np_sqrt ar (- np_log ar rate))))))
          \<and> (0 < rate \<and> rate \<le> 1
               \<longrightarrow> simple_cfar exact_arith data guard noise_win rate ! i
                     = (spec_noise_window data guard noise_win i \<noteq> []
                        \<and> \<bar>data ! i\<bar>
                            > (sum_list (map abs (spec_noise_window data guard noise_win i))
                                 / real (length (spec_noise_window data guard noise_win i)))
                              * (1 + 3 * sqrt (- ln rate))))
          \<and> (\<not> (0 < rate \<and> rate \<le> 1) \<longrightarrow> \<not> simple_cfar ar data guard noise_win rate ! i))"
  using assms
  by (simp add: simple_cfar_length simple_cfar_nth cfar_cell_def noise_samples_spec
      exceeds_def rate_factor_def exact_arith_def)

text \<open>
  C2 as amended, at the data \<open>[1, 1, 9, 1]\<close> with no guard cell and windows of one sample:
  the peak is flagged at rate 1/2, where the factor is at most 4, and not at rate 2; a
  single sample has no noise sample and is not flagged.
\<close>

theorem simple_cfar_flags_witness:
  "(0::int) \<le> 0 \<and> (0::int) \<le> 1 \<and> (0::real) < 1 / 2 \<and> (1 / 2 :: real) \<le> 1
   \<and> length (simple_cfar exact_arith [1, 1, 9, 1] 0 1 (1 / 2)) = 4
   \<and> spec_noise_window [1, 1, 9, 1] 0 1 2 = [1, 1]
   \<and> simple_cfar exact_arith [1, 1, 9, 1] 0 1 (1 / 2) ! 2
   \<and> spec_noise_window [5] 0 1 0 = []
   \<and> \<not> simple_cfar exact_arith [5] 0 1 (1 / 2) ! 0
   \<and> \<not> simple_cfar exact_arith [1, 1, 9, 1] 0 1 2 ! 2"
proof -
  define f :: real where "f = 1 + 3 * sqrt (- ln (1 / 2))"
  have f: "1 \<le> f" "f \<le> 4"
    using half_factor by (simp_all only: f_def)
  have h: "(0::int) \<le> 0" "(0::int) \<le> 1"
    by simp_all
  note T = simple_cfar_flags [OF h, where ar = exact_arith and data = "[1, 1, 9, 1]"
      and rate = "1 / 2", folded f_def]
  have w: "spec_noise_window [1, 1, 9, 1] 0 1 2 = [1, 1]"
    by (simp add: spec_noise_window_def clipped_window_def upt_rec)
  have e: "spec_noise_window [5] 0 1 0 = []"
    by (simp add: spec_noise_window_def clipped_window_def)
  have "2 < length [1, 1, 9, 1 :: real]"
    by simp
  note T2 = T [THEN conjunct2, rule_format, OF this]
  have a: "simple_cfar exact_arith [1, 1, 9, 1] 0 1 (1 / 2) ! 2"
    using T2 [THEN conjunct2, THEN conjunct2, THEN conjunct1] f(2) by (simp add: w)
  have b: "\<not> simple_cfar exact_arith [5] 0 1 (1 / 2) ! 0"
    using simple_cfar_flags [OF h, where ar = exact_arith and data = "[5]" and rate = "1 / 2",
        THEN conjunct2, rule_format, of 0, THEN conjunct1] e
    by simp
  have c: "\<not> simple_cfar exact_arith [1, 1, 9, 1] 0 1 2 ! 2"
    using simple_cfar_flags [OF h, where ar = exact_arith and data = "[1, 1, 9, 1]" and rate = 2,
        THEN conjunct2, rule_format, of 2, THEN conjunct2, THEN conjunct2, THEN conjunct2]
    by simp
  have l: "length (simple_cfar exact_arith [1, 1, 9, 1] 0 1 (1 / 2)) = 4"
    using T [THEN conjunct1] by simp
  from h w e a b c l show ?thesis
    by simp
qed

text \<open>
  C4 fails on the code: where the specification demands \<open>InvalidProbability\<close>, the
  detector returns a mask.  At rate 2 the threshold is \<open>nan\<close> and nothing is flagged.
\<close>

theorem simple_cfar_rate_unchecked_counterexample:
  "cfar_threshold_spec [1, 1, 9, 1] 0 1 2 = Inl InvalidProbability
   \<and> simple_cfar exact_arith [1, 1, 9, 1] 0 1 2 = [False, False, False, False]"
  using simple_cfar_nonfinite [of exact_arith 2 "[1, 1, 9, 1]" 0 1]
  by (simp add: cfar_threshold_spec_def rate_factor_def numeral_eq_Suc)

text \<open>
  C4 as amended: a false-alarm rate outside (0,1) is not rejected.  The detector returns
  a mask of the length of the input, and unless the rate is exactly 1 the mask is all
  \<open>False\<close>, the threshold being non-finite.  This holds whatever the rounding of the
  arithmetic.
\<close>

theorem simple_cfar_rate_unchecked:
  assumes "\<not> (0 < rate \<and> rate < 1)"
  shows "length (simple_cfar ar data guard noise_win rate) = length data
       \<and> (rate \<noteq> 1 \<longrightarrow> simple_cfar ar data guard noise_win rate = replicate (length data) False)"
proof -
  have "rate_factor ar rate = None" if "rate \<noteq> 1"
    using assms that by (auto simp add: rate_factor_def)
  then show ?thesis
    by (simp add: simple_cfar_length simple_cfar_nonfinite)
qed

text \<open>
  C4 as amended, at rate 2.
\<close>

theorem simple_cfar_rate_unchecked_witness:
  "\<not> (0 < (2::real) \<and> (2::real) < 1) \<and> length (simple_cfar exact_arith [1, 1, 9, 1] 0 1 2) = 4
    \<and> simple_cfar exact_arith [1, 1, 9, 1] 0 1 2 = [False, False, False, False]"
  using simple_cfar_rate_unchecked [of 2 exact_arith "[1, 1, 9, 1]" 0 1]
  by (simp add: numeral_eq_Suc)

section \<open>Properties of the tracker\<close>

subsection \<open>Auxiliary facts\<close>

lemma eye2: "eye 2 = [[1, 0], [0, 1]]"
  by (simp add: eye_def upt_rec numeral_eq_Suc)

lemma mat_mul_2x2:
  "mat_mul [[a, b], [c, d]] [[p, q], [r, s]]
     = [[a * p + b * r, a * q + b * s], [c * p + d * r, c * q + d * s]]"
  by (simp add: mat_mul_def ncols_def col_def dot_def upt_rec numeral_eq_Suc)

lemma inv_2x2_inverse:
  assumes "inv_2x2 S = Inr S_inv"
  shows "mat_mul S S_inv = eye 2 \<and> mat_mul S_inv S = eye 2"
proof -
  obtain a b c d where S: "S = [[a, b], [c, d]]"
    using assms by (cases S rule: inv_2x2.cases) simp_all
  define D where "D = a * d - b * c"
  have det: "D \<noteq> 0"
    using assms by (auto simp add: S D_def split: if_splits)
  have Si: "S_inv = [[d / D, - b / D], [- c / D, a / D]]"
    using assms det by (simp add: S D_def)
  have e1: "a * (d / D) + b * (- c / D) = 1"
  proof -
    have "a * (d / D) + b * (- c / D) = (a * d - b * c) / D"
      by (simp add: diff_divide_distrib)
    then show ?thesis using det by (simp add: D_def)
  qed
  have e2: "a * (- b / D) + b * (a / D) = 0"
    by simp
  have e3: "c * (d / D) + d * (- c / D) = 0"
    by simp
  have e4: "c * (- b / D) + d * (a / D) = 1"
  proof -
    have "c * (- b / D) + d * (a / D) = (a * d - b * c) / D"
      by (simp add: diff_divide_distrib mult.commute)
    then show ?thesis using det by (simp add: D_def)
  qed
  have f1: "d / D * a + - b / D * c = 1"
    using e1 e4 by (simp add: mult.commute)
  have f2: "d / D * b + - b / D * d = 0"
    by simp
  have f3: "- c / D * a + a / D * c = 0"
    by simp
  have f4: "- c / D * b + a / D * d = 1"
    using e4 by (simp add: mult.commute)
  show ?thesis
    by (simp only: S Si mat_mul_2x2 eye2 e1 e2 e3 e4 f1 f2 f3 f4)
qed

lemma track_ids_predict: "track_ids (predict t dt) = track_ids t"
  by (simp add: track_ids_def predict_def case_prod_unfold comp_def)

lemma next_id_predict: "next_id (predict t dt) = next_id t"
  by (simp add: predict_def)

lemma id_pairs_predict: "id_pairs (predict t dt) = id_pairs t"
  by (simp add: id_pairs_def predict_def predict_track_def case_prod_unfold comp_def Let_def)

lemma dict_set_fresh: "k \<notin> set (map fst kvs) \<Longrightarrow> dict_set k v kvs = kvs @ [(k, v)]"
  by (induction kvs) auto

lemma dict_set_keys: "\<exists>new. map fst (dict_set k v kvs) = map fst kvs @ new"
  by (induction kvs) auto

lemma store_track_keys: "map fst (store_track k tr kvs) = map fst kvs"
  by (simp add: store_track_def case_prod_unfold comp_def)

lemma create_track_fresh:
  assumes "next_id t \<notin> set (track_ids t)"
  shows "create_track t d
           = t\<lparr>tracks := tracks t @ [(next_id t, new_track (next_id t) d)],
                next_id := next_id t + 1\<rparr>"
  using assms by (simp add: create_track_def track_ids_def dict_set_fresh)

lemma kalman_update_id: "kalman_update la tr d = Inr tr' \<Longrightarrow> tr_id tr' = tr_id tr"
  by (auto simp add: kalman_update_def Let_def split: sum.splits)

lemma update_one_cases:
  assumes "update_one la t d = Inr t'"
  shows "t' = create_track t d
       \<or> (\<exists>k tr tr'. map_of (tracks t) k = Some tr \<and> kalman_update la tr d = Inr tr'
                      \<and> t' = t\<lparr>tracks := store_track k tr' (tracks t)\<rparr>)"
proof (cases "tracks t = []")
  case True
  then show ?thesis
    using assms by (simp add: update_one_def)
next
  case False
  show ?thesis
  proof (cases "find_nearest la (tracks t) d None")
    case None
    then show ?thesis
      using assms False by (simp add: update_one_def)
  next
    case (Some best)
    obtain best_id best_dist where best: "best = (best_id, best_dist)"
      by (cases best)
    show ?thesis
    proof (cases "best_dist < 1000")
      case far: False
      then show ?thesis
        using assms False Some best by (simp add: update_one_def)
    next
      case near: True
      then obtain tr tr' where "map_of (tracks t) best_id = Some tr" "kalman_update la tr d = Inr tr'"
          "t' = t\<lparr>tracks := store_track best_id tr' (tracks t)\<rparr>"
        using assms False Some best
        by (auto simp add: update_one_def split: option.splits sum.splits)
      then show ?thesis
        by blast
    qed
  qed
qed

lemma store_track_id_pairs:
  assumes "map_of kvs k = Some tr" "tr_id tr' = tr_id tr" "distinct (map fst kvs)"
  shows "map (\<lambda>(k, tr). (k, tr_id tr)) (store_track k tr' kvs) = map (\<lambda>(k, tr). (k, tr_id tr)) kvs"
  using assms
proof (induction kvs)
  case Nil
  then show ?case by simp
next
  case (Cons p kvs)
  obtain k' v where p: "p = (k', v)"
    by (cases p)
  show ?case
  proof (cases "k' = k")
    case True
    then have "k \<notin> fst ` set kvs"
      using Cons.prems(3) p by simp
    then have "store_track k tr' kvs = kvs"
      by (induction kvs) (auto simp add: store_track_def)
    then show ?thesis
      using Cons.prems True p by (simp add: store_track_def)
  next
    case False
    then show ?thesis
      using Cons p by (simp add: store_track_def)
  qed
qed

lemma tracker_inv_distinct: "tracker_inv t \<Longrightarrow> distinct (track_ids t)"
  by (simp add: tracker_inv_def strict_sorted_iff)

lemma tracker_inv_fresh: "tracker_inv t \<Longrightarrow> next_id t \<notin> set (track_ids t)"
  by (auto simp add: tracker_inv_def)

lemma tracker_inv_init: "tracker_inv TargetTracker_init"
  by (simp add: tracker_inv_def TargetTracker_init_def track_ids_def)

lemma tracker_inv_predict: "tracker_inv t \<Longrightarrow> tracker_inv (predict t dt)"
  unfolding tracker_inv_def track_ids_predict next_id_predict
  by (auto simp add: predict_def predict_track_def Let_def)

lemma tracker_inv_create:
  assumes "tracker_inv t"
  shows "tracker_inv (create_track t d)"
proof -
  have "sorted_wrt (<) (track_ids t @ [next_id t])"
    using assms by (auto simp add: tracker_inv_def sorted_wrt_append)
  then show ?thesis
    using assms
    by (auto simp add: create_track_fresh [OF tracker_inv_fresh [OF assms]] tracker_inv_def
        track_ids_def new_track_def)
qed

lemma tracker_inv_store:
  assumes "tracker_inv t" "map_of (tracks t) k = Some tr" "tr_id tr' = tr_id tr"
  shows "tracker_inv (t\<lparr>tracks := store_track k tr' (tracks t)\<rparr>)"
proof -
  have "tr_id tr = k"
    using assms(1,2) by (auto simp add: tracker_inv_def dest: map_of_SomeD)
  then show ?thesis
    using assms
    by (auto simp add: tracker_inv_def track_ids_def store_track_keys)
       (auto simp add: store_track_def split: if_splits)
qed

lemma tracker_inv_update_one:
  assumes "tracker_inv t" "update_one la t d = Inr t'"
  shows "tracker_inv t'"
  using update_one_cases [OF assms(2)] assms(1)
  by (auto simp add: tracker_inv_create tracker_inv_store kalman_update_id)

lemma update_one_extends:
  assumes "tracker_inv t" "update_one la t d = Inr t'"
  shows "(id_pairs t' = id_pairs t \<and> next_id t' = next_id t)
       \<or> (id_pairs t' = id_pairs t @ [(next_id t, next_id t)] \<and> next_id t' = next_id t + 1)"
proof -
  from update_one_cases [OF assms(2)] show ?thesis
  proof
    assume "t' = create_track t d"
    then show ?thesis
      by (simp add: create_track_fresh [OF tracker_inv_fresh [OF assms(1)]] id_pairs_def new_track_def)
  next
    assume "\<exists>k tr tr'. map_of (tracks t) k = Some tr \<and> kalman_update la tr d = Inr tr'
                      \<and> t' = t\<lparr>tracks := store_track k tr' (tracks t)\<rparr>"
    then obtain k tr tr' where *: "map_of (tracks t) k = Some tr" "kalman_update la tr d = Inr tr'"
        "t' = t\<lparr>tracks := store_track k tr' (tracks t)\<rparr>"
      by blast
    have "distinct (map fst (tracks t))"
      using tracker_inv_distinct [OF assms(1)] by (simp add: track_ids_def)
    then show ?thesis
      using * by (simp add: id_pairs_def store_track_id_pairs kalman_update_id)
  qed
qed

lemma update_one_keys:
  assumes "update_one la t d = Inr t'"
  shows "\<exists>new. track_ids t' = track_ids t @ new"
  using update_one_cases [OF assms] dict_set_keys [of "next_id t" "new_track (next_id t) d" "tracks t"]
  by (auto simp add: track_ids_def create_track_def store_track_keys)

lemma update_keys: "\<exists>new. track_ids (fst (update la t ds)) = track_ids t @ new"
proof (induction ds arbitrary: t)
  case Nil
  then show ?case by simp
next
  case (Cons d ds)
  show ?case
  proof (cases "update_one la t d")
    case (Inl e)
    then show ?thesis by simp
  next
    case (Inr t')
    obtain new1 where "track_ids t' = track_ids t @ new1"
      using update_one_keys [OF Inr] by blast
    moreover obtain new2 where "track_ids (fst (update la t' ds)) = track_ids t' @ new2"
      using Cons.IH [of t'] by blast
    ultimately show ?thesis
      using Inr by simp
  qed
qed

lemma call_keys: "\<exists>new. track_ids (call la t c) = track_ids t @ new"
  by (cases c) (simp_all add: track_ids_predict update_keys)

lemma tracker_inv_update: "tracker_inv t \<Longrightarrow> tracker_inv (fst (update la t ds))"
proof (induction ds arbitrary: t)
  case Nil
  then show ?case by simp
next
  case (Cons d ds)
  then show ?case
    by (cases "update_one la t d") (simp_all add: tracker_inv_update_one)
qed

lemma tracker_inv_call: "tracker_inv t \<Longrightarrow> tracker_inv (call la t c)"
  by (cases c) (simp_all add: tracker_inv_predict tracker_inv_update)

lemma tracker_inv_run: "tracker_inv t \<Longrightarrow> tracker_inv (run_calls la t cs)"
  unfolding run_calls_def
  by (induction cs arbitrary: t) (simp_all add: tracker_inv_call)

lemma fresh_ids_mono: "fresh_ids n new \<Longrightarrow> m \<le> n \<Longrightarrow> fresh_ids m new"
  by (auto simp add: fresh_ids_def list_all_iff)

lemma update_extends:
  assumes "tracker_inv t"
  shows "\<exists>new. id_pairs (fst (update la t ds)) = id_pairs t @ new \<and> fresh_ids (next_id t) new
             \<and> next_id t \<le> next_id (fst (update la t ds))"
  using assms
proof (induction ds arbitrary: t)
  case Nil
  then show ?case by (simp add: fresh_ids_def)
next
  case (Cons d ds)
  show ?case
  proof (cases "update_one la t d")
    case (Inl e)
    then show ?thesis by (simp add: fresh_ids_def)
  next
    case (Inr t')
    have inv': "tracker_inv t'"
      using Cons.prems Inr by (rule tracker_inv_update_one)
    obtain new1 where 1: "id_pairs t' = id_pairs t @ new1" "fresh_ids (next_id t) new1"
        "next_id t \<le> next_id t'"
      using update_one_extends [OF Cons.prems Inr] by (auto simp add: fresh_ids_def)
    obtain new2 where 2: "id_pairs (fst (update la t' ds)) = id_pairs t' @ new2"
        "fresh_ids (next_id t') new2" "next_id t' \<le> next_id (fst (update la t' ds))"
      using Cons.IH [OF inv'] by blast
    have "fresh_ids (next_id t) (new1 @ new2)"
      using 1 fresh_ids_mono [OF 2(2) 1(3)] by (simp add: fresh_ids_def)
    then show ?thesis
      using Inr 1 2 by simp
  qed
qed

lemma call_extends:
  assumes "tracker_inv t"
  shows "\<exists>new. id_pairs (call la t c) = id_pairs t @ new \<and> fresh_ids (next_id t) new
             \<and> next_id t \<le> next_id (call la t c)"
proof (cases c)
  case (Predict dt)
  then show ?thesis
    by (simp add: id_pairs_predict next_id_predict fresh_ids_def)
next
  case (Update ds)
  then show ?thesis
    using update_extends [OF assms] by simp
qed

lemma run_calls_extends:
  assumes "tracker_inv t"
  shows "\<exists>new. id_pairs (run_calls la t cs) = id_pairs t @ new \<and> fresh_ids (next_id t) new
             \<and> next_id t \<le> next_id (run_calls la t cs)"
  using assms
proof (induction cs arbitrary: t)
  case Nil
  then show ?case by (simp add: run_calls_def fresh_ids_def)
next
  case (Cons c cs)
  obtain new1 where 1: "id_pairs (call la t c) = id_pairs t @ new1" "fresh_ids (next_id t) new1"
      "next_id t \<le> next_id (call la t c)"
    using call_extends [OF Cons.prems] by blast
  obtain new2 where 2: "id_pairs (run_calls la (call la t c) cs) = id_pairs (call la t c) @ new2"
      "fresh_ids (next_id (call la t c)) new2" "next_id (call la t c) \<le> next_id (run_calls la (call la t c) cs)"
    using Cons.IH [OF tracker_inv_call [OF Cons.prems]] by blast
  have "fresh_ids (next_id t) (new1 @ new2)"
    using 1 fresh_ids_mono [OF 2(2) 1(3)] by (simp add: fresh_ids_def)
  moreover have "run_calls la t (c # cs) = run_calls la (call la t c) cs"
    by (simp add: run_calls_def)
  ultimately show ?case
    using 1 2 by simp
qed

lemma find_nearest_Some: "\<exists>r. find_nearest la kvs d (Some b) = Some r"
  by (induction kvs arbitrary: b) (auto simp add: Let_def)

lemma find_nearest_nonempty:
  assumes "kvs \<noteq> []"
  shows "\<exists>k dst. find_nearest la kvs d None = Some (k, dst)"
proof -
  obtain tid tr rest where "kvs = (tid, tr) # rest"
    using assms by (cases kvs) auto
  then show ?thesis
    using find_nearest_Some [of la rest d "(tid, track_dist la tr d)"] by (auto simp add: Let_def)
qed

lemma find_nearest_acc:
  assumes "find_nearest la kvs d best = Some (k, dst)"
  shows "(best = Some (k, dst) \<or> (\<exists>tr. (k, tr) \<in> set kvs \<and> dst = track_dist la tr d))
       \<and> (\<forall>(k', tr') \<in> set kvs. dst \<le> track_dist la tr' d)
       \<and> (\<forall>k0 d0. best = Some (k0, d0) \<longrightarrow> dst \<le> d0)"
  using assms
proof (induction kvs arbitrary: best)
  case Nil
  then show ?case by simp
next
  case (Cons p kvs)
  obtain tid tr where p: "p = (tid, tr)"
    by (cases p)
  show ?case
  proof (cases "case best of None \<Rightarrow> True | Some (best_id, best_dist) \<Rightarrow> track_dist la tr d < best_dist")
    case True
    then have "find_nearest la kvs d (Some (tid, track_dist la tr d)) = Some (k, dst)"
      using Cons.prems p by (simp add: Let_def)
    from Cons.IH [OF this] True show ?thesis
      by (auto simp add: p split: option.splits)
  next
    case False
    then have "find_nearest la kvs d best = Some (k, dst)"
      using Cons.prems p by (simp add: Let_def)
    from Cons.IH [OF this] False show ?thesis
      by (auto simp add: p split: option.splits)
  qed
qed

lemma find_nearest_min:
  assumes "kvs \<noteq> []" "distinct (map fst kvs)"
  shows "\<exists>best_id tr. find_nearest la kvs d None = Some (best_id, track_dist la tr d)
           \<and> map_of kvs best_id = Some tr
           \<and> (\<forall>(k', tr') \<in> set kvs. track_dist la tr d \<le> track_dist la tr' d)"
proof -
  obtain k dst where r: "find_nearest la kvs d None = Some (k, dst)"
    using find_nearest_nonempty [OF assms(1)] by blast
  from find_nearest_acc [OF r] obtain tr where
    "(k, tr) \<in> set kvs" "dst = track_dist la tr d" "\<forall>(k', tr') \<in> set kvs. dst \<le> track_dist la tr' d"
    by auto
  then show ?thesis
    using r assms(2) by (auto simp add: map_of_eq_Some_iff)
qed

lemma track_dist_simp:
  "track_dist exact_linalg \<lparr>tr_id = n, tr_state = [a, b, va, vb], tr_P = Q\<rparr> (x, y)
     = sqrt ((a - x)\<^sup>2 + (b - y)\<^sup>2)"
  by (simp add: track_dist_def exact_linalg_def vec_norm_def vec_sub_def)

lemma eye4: "eye 4 = [[1, 0, 0, 0], [0, 1, 0, 0], [0, 0, 1, 0], [0, 0, 0, 1]]"
  by (simp add: eye_def upt_rec numeral_eq_Suc)

subsection \<open>The claims about the tracker\<close>

text \<open>
  C6: on a tracker that holds no track, \<open>update\<close> with the single detection \<open>(x, y)\<close>
  returns without an exception and leaves exactly one track, stored under the former
  \<open>next_id\<close>, with state \<open>[x, y, 0, 0]\<close> and the identity as covariance.
\<close>

theorem update_first_detection:
  assumes "tracks t = []"
  shows "update la t [(x, y)]
           = (t\<lparr>tracks := [(next_id t, \<lparr>tr_id = next_id t, tr_state = [x, y, 0, 0], tr_P = eye 4\<rparr>)],
                next_id := next_id t + 1\<rparr>, None)"
  using assms by (simp add: update_one_def create_track_def new_track_def)

text \<open>
  C6 on a new tracker: the detection \<open>(3, 4)\<close> becomes track 1.
\<close>

theorem update_first_detection_witness:
  "tracks TargetTracker_init = []
   \<and> update exact_linalg TargetTracker_init [(3, 4)]
       = (\<lparr>tracks = [(1, \<lparr>tr_id = 1, tr_state = [3, 4, 0, 0], tr_P = eye 4\<rparr>)], next_id = 2\<rparr>, None)"
  using update_first_detection [where t = TargetTracker_init and la = exact_linalg and x = 3 and y = 4]
  by (simp add: TargetTracker_init_def)

text \<open>
  C7 fails on the code at the threshold itself: a detection at distance exactly 1000
  from the only track does not exceed 1000, and a second track is created.
\<close>

theorem update_gating_counterexample:
  "tracks (fst (update exact_linalg TargetTracker_init [(0, 0)])) = [(1, new_track 1 (0, 0))]
   \<and> track_dist exact_linalg (new_track 1 (0, 0)) (1000, 0) = 1000
   \<and> \<not> (1000 < track_dist exact_linalg (new_track 1 (0, 0)) (1000, 0))
   \<and> track_ids (fst (update exact_linalg (fst (update exact_linalg TargetTracker_init [(0, 0)])) [(1000, 0)])) = [1, 2]"
  by (simp add: TargetTracker_init_def update_one_def create_track_def new_track_def track_dist_simp
      track_ids_def)

lemma track_dist_explicit:
  "track_dist la tr d = linalg_norm la (map2 (-) (take 2 (tr_state tr)) [fst d, snd d])"
  by (simp add: track_dist_def vec_sub_def)

lemma exact_norm_2: "linalg_norm exact_linalg [a, b] = sqrt (a\<^sup>2 + b\<^sup>2)"
  by (simp add: exact_linalg_def vec_norm_def)

lemma exact_inv_inverse:
  "linalg_inv exact_linalg S = Inr S_inv \<Longrightarrow> mat_mul S S_inv = eye 2 \<and> mat_mul S_inv S = eye 2"
  by (simp add: exact_linalg_def inv_2x2_inverse)

text \<open>
  C7 as amended: with at least one track (keys distinct, as in a dict, and \<open>next_id\<close>
  not yet a key), a detection finds a track \<open>best_id\<close> whose distance, the double that
  \<open>np.linalg.norm\<close> returns for the difference of the two positions, is the least.  If that
  distance is at least 1000 a new track is appended.  If it is less than 1000, the call
  raises what \<open>np.linalg.inv\<close> raises on \<open>S = H P H\<^sup>T + 10 I\<close> and leaves the tracker as it
  was; otherwise, with \<open>S_inv\<close> the matrix \<open>np.linalg.inv\<close> returns, the track at \<open>best_id\<close>,
  and no other, is replaced by its correction \<open>state + K y\<close>, \<open>(I - K H) P\<close> with
  \<open>y = z - H state\<close> and \<open>K = P H\<^sup>T S_inv\<close>.  Without rounding the distance is the
  Euclidean one and \<open>S_inv\<close> is the inverse of \<open>S\<close>.
\<close>

theorem update_gating:
  assumes "tracks t \<noteq> []" and "distinct (track_ids t)" and "next_id t \<notin> set (track_ids t)"
  shows "(\<exists>best_id tr.
           map_of (tracks t) best_id = Some tr
         \<and> (\<forall>(k', tr') \<in> set (tracks t).
               linalg_norm la (map2 (-) (take 2 (tr_state tr)) [fst d, snd d])
                 \<le> linalg_norm la (map2 (-) (take 2 (tr_state tr')) [fst d, snd d]))
         \<and> (1000 \<le> linalg_norm la (map2 (-) (take 2 (tr_state tr)) [fst d, snd d]) \<longrightarrow>
               update_one la t d = Inr (t\<lparr>tracks := tracks t @ [(next_id t, new_track (next_id t) d)],
                                        next_id := next_id t + 1\<rparr>))
         \<and> (linalg_norm la (map2 (-) (take 2 (tr_state tr)) [fst d, snd d]) < 1000 \<longrightarrow>
               (let z = [fst d, snd d];
                    H = H_matrix;
                    P = tr_P tr;
                    y = vec_sub z (mat_vec H (tr_state tr));
                    S = mat_add (mat_mul (mat_mul H P) (mat_T H)) (mat_scale (eye 2) 10)
                in case linalg_inv la S of
                     Inl e \<Rightarrow> update_one la t d = Inl e
                   | Inr S_inv \<Rightarrow>
                       (let K = mat_mul (mat_mul P (mat_T H)) S_inv
                        in update_one la t d
                             = Inr (t\<lparr>tracks := store_track best_id
                                          (tr\<lparr>tr_state := vec_add (tr_state tr) (mat_vec K y),
                                              tr_P := mat_mul (mat_sub (eye 4) (mat_mul K H)) P\<rparr>)
                                          (tracks t)\<rparr>)))))
       \<and> linalg_norm exact_linalg [a, b] = sqrt (a\<^sup>2 + b\<^sup>2)
       \<and> (\<forall>S S_inv. linalg_inv exact_linalg S = Inr S_inv
             \<longrightarrow> mat_mul S S_inv = eye 2 \<and> mat_mul S_inv S = eye 2)"
proof -
  obtain best_id tr where n: "find_nearest la (tracks t) d None = Some (best_id, track_dist la tr d)"
      "map_of (tracks t) best_id = Some tr"
      "\<forall>(k', tr') \<in> set (tracks t). track_dist la tr d \<le> track_dist la tr' d"
    using find_nearest_min [OF assms(1)] assms(2) unfolding track_ids_def by blast
  have far: "update_one la t d = Inr (t\<lparr>tracks := tracks t @ [(next_id t, new_track (next_id t) d)],
                                        next_id := next_id t + 1\<rparr>)" if "1000 \<le> track_dist la tr d"
    using that assms(1) n(1) by (simp add: update_one_def create_track_fresh [OF assms(3)])
  have near: "update_one la t d = (case kalman_update la tr d of Inl e \<Rightarrow> Inl e
                 | Inr tr' \<Rightarrow> Inr (t\<lparr>tracks := store_track best_id tr' (tracks t)\<rparr>))"
    if "track_dist la tr d < 1000"
    using that assms(1) n(1,2) by (simp add: update_one_def)
  have gate: "\<exists>best_id tr.
           map_of (tracks t) best_id = Some tr
         \<and> (\<forall>(k', tr') \<in> set (tracks t). track_dist la tr d \<le> track_dist la tr' d)
         \<and> (1000 \<le> track_dist la tr d \<longrightarrow>
               update_one la t d = Inr (t\<lparr>tracks := tracks t @ [(next_id t, new_track (next_id t) d)],
                                        next_id := next_id t + 1\<rparr>))
         \<and> (track_dist la tr d < 1000 \<longrightarrow>
               (let z = [fst d, snd d];
                    H = H_matrix;
                    P = tr_P tr;
                    y = vec_sub z (mat_vec H (tr_state tr));
                    S = mat_add (mat_mul (mat_mul H P) (mat_T H)) (mat_scale (eye 2) 10)
                in case linalg_inv la S of
                     Inl e \<Rightarrow> update_one la t d = Inl e
                   | Inr S_inv \<Rightarrow>
                       (let K = mat_mul (mat_mul P (mat_T H)) S_inv
                        in update_one la t d
                             = Inr (t\<lparr>tracks := store_track best_id
                                          (tr\<lparr>tr_state := vec_add (tr_state tr) (mat_vec K y),
                                              tr_P := mat_mul (mat_sub (eye 4) (mat_mul K H)) P\<rparr>)
                                          (tracks t)\<rparr>))))"
    using n(2,3) far near
    by (intro exI [of _ best_id] exI [of _ tr])
       (auto simp add: kalman_update_def Let_def split: sum.splits)
  have inv: "\<forall>S S_inv. linalg_inv exact_linalg S = Inr S_inv
             \<longrightarrow> mat_mul S S_inv = eye 2 \<and> mat_mul S_inv S = eye 2"
    using exact_inv_inverse by blast
  show ?thesis
    by (intro conjI gate [unfolded track_dist_explicit] exact_norm_2 inv)
qed

text \<open>
  C7 as amended, without rounding, on a tracker with one track at the origin: a detection
  at distance 5 corrects the track, one at distance 5000 creates track 2, and with the
  covariance \<open>- 10 I\<close> the innovation covariance is singular and the call raises
  \<open>LinAlgError\<close>.
\<close>

theorem update_gating_witness:
  "tracks \<lparr>tracks = [(1, new_track 1 (0, 0))], next_id = 2\<rparr> \<noteq> []
   \<and> distinct (track_ids \<lparr>tracks = [(1, new_track 1 (0, 0))], next_id = 2\<rparr>)
   \<and> next_id \<lparr>tracks = [(1, new_track 1 (0, 0))], next_id = 2\<rparr>
        \<notin> set (track_ids \<lparr>tracks = [(1, new_track 1 (0, 0))], next_id = 2\<rparr>)
   \<and> track_dist exact_linalg (new_track 1 (0, 0)) (3, 4) = 5
   \<and> update_one exact_linalg \<lparr>tracks = [(1, new_track 1 (0, 0))], next_id = 2\<rparr> (3, 4)
       = Inr \<lparr>tracks = [(1, \<lparr>tr_id = 1, tr_state = [3 / 11, 4 / 11, 0, 0],
                tr_P = [[10 / 11, 0, 0, 0], [0, 10 / 11, 0, 0], [0, 0, 1, 0], [0, 0, 0, 1]]\<rparr>)],
              next_id = 2\<rparr>
   \<and> track_dist exact_linalg (new_track 1 (0, 0)) (0, 5000) = 5000
   \<and> update_one exact_linalg \<lparr>tracks = [(1, new_track 1 (0, 0))], next_id = 2\<rparr> (0, 5000)
       = Inr \<lparr>tracks = [(1, new_track 1 (0, 0)), (2, new_track 2 (0, 5000))], next_id = 3\<rparr>
   \<and> update_one exact_linalg \<lparr>tracks = [(1, \<lparr>tr_id = 1, tr_state = [0, 0, 0, 0], tr_P = mat_scale (eye 4) (- 10)\<rparr>)],
                  next_id = 2\<rparr> (3, 4) = Inl LinAlgError"
proof -
  let ?t = "\<lparr>tracks = [(1, new_track 1 (0, 0))], next_id = 2\<rparr>"
  let ?u = "\<lparr>tracks = [(1, \<lparr>tr_id = 1, tr_state = [0, 0, 0, 0], tr_P = mat_scale (eye 4) (- 10)\<rparr>)],
                  next_id = 2\<rparr>"
  have h: "tracks ?t \<noteq> []" "distinct (track_ids ?t)" "next_id ?t \<notin> set (track_ids ?t)"
    by (simp_all add: track_ids_def)
  have hu: "tracks ?u \<noteq> []" "distinct (track_ids ?u)" "next_id ?u \<notin> set (track_ids ?u)"
    by (simp_all add: track_ids_def)
  have d: "track_dist exact_linalg (new_track 1 (0, 0)) (3, 4) = 5"
    by (simp add: new_track_def track_dist_simp)
  have d2: "track_dist exact_linalg (new_track 1 (0, 0)) (0, 5000) = 5000"
    by (simp add: new_track_def track_dist_simp)
  have n1: "linalg_norm exact_linalg [0 - 3, 0 - 4] = 5"
      "linalg_norm exact_linalg [0 - 0, 0 - 5000] = 5000"
    by (simp_all add: exact_norm_2)
  have i1: "linalg_inv exact_linalg [[11, 0], [0, 11]] = Inr [[1 / 11, 0], [0, 1 / 11]]"
      "linalg_inv exact_linalg [[0, 0], [0, 0]] = Inl LinAlgError"
    by (simp_all add: exact_linalg_def)
  have near: "update_one exact_linalg ?t (3, 4)
       = Inr \<lparr>tracks = [(1, \<lparr>tr_id = 1, tr_state = [3 / 11, 4 / 11, 0, 0],
                tr_P = [[10 / 11, 0, 0, 0], [0, 10 / 11, 0, 0], [0, 0, 1, 0], [0, 0, 0, 1]]\<rparr>)],
              next_id = 2\<rparr>"
    using update_gating [OF h, where la = exact_linalg and d = "(3, 4)", THEN conjunct1] n1 i1
    unfolding new_track_def H_matrix_def eye4 eye2
    by (auto simp add: mat_mul_def mat_T_def mat_add_def mat_sub_def mat_scale_def mat_vec_def
        vec_add_def vec_sub_def ncols_def col_def dot_def upt_rec numeral_eq_Suc store_track_def
        split: if_splits)
  have far: "update_one exact_linalg ?t (0, 5000)
       = Inr \<lparr>tracks = [(1, new_track 1 (0, 0)), (2, new_track 2 (0, 5000))], next_id = 3\<rparr>"
    using update_gating [OF h, where la = exact_linalg and d = "(0, 5000)", THEN conjunct1] n1
    by (auto simp add: new_track_def split: if_splits)
  have sing: "update_one exact_linalg ?u (3, 4) = Inl LinAlgError"
    using update_gating [OF hu, where la = exact_linalg and d = "(3, 4)", THEN conjunct1] n1 i1
    unfolding H_matrix_def eye4 eye2
    by (auto simp add: mat_mul_def mat_T_def mat_add_def mat_sub_def mat_scale_def mat_vec_def
        vec_add_def vec_sub_def ncols_def col_def dot_def upt_rec numeral_eq_Suc store_track_def
        split: if_splits)
  from h d d2 near far sing show ?thesis
    by simp
qed

text \<open>
  C8: in every state \<open>t\<close> reached from a new tracker by \<open>predict\<close> and \<open>update\<close> calls, the
  ids are strictly increasing in the order of creation and all lie in \<open>1 \<le> id < next_id\<close>;
  whatever calls follow, every id stays with its track and in its place, the ids added
  are at least the \<open>next_id\<close> of \<open>t\<close>, and \<open>next_id\<close> does not decrease; and the creation of
  a track in \<open>t\<close> appends a new key and never overwrites a track.
\<close>

theorem track_ids_increasing_never_reused:
  "let t = run_calls la TargetTracker_init cs; t' = run_calls la t cs'
   in sorted_wrt (<) (track_ids t)
      \<and> list_all (\<lambda>k. 1 \<le> k \<and> k < next_id t) (track_ids t)
      \<and> (\<exists>new. id_pairs t' = id_pairs t @ new \<and> fresh_ids (next_id t) new)
      \<and> next_id t \<le> next_id t'
      \<and> create_track t d = t\<lparr>tracks := tracks t @ [(next_id t, new_track (next_id t) d)],
                                next_id := next_id t + 1\<rparr>"
proof -
  let ?t = "run_calls la TargetTracker_init cs"
  have inv: "tracker_inv ?t"
    by (rule tracker_inv_run [OF tracker_inv_init])
  have "sorted_wrt (<) (track_ids ?t)" "list_all (\<lambda>k. 1 \<le> k \<and> k < next_id ?t) (track_ids ?t)"
    using inv by (simp_all add: tracker_inv_def list_all_iff)
  moreover note run_calls_extends [OF inv, where la = la and cs = cs'] create_track_fresh [OF tracker_inv_fresh [OF inv], of d]
  ultimately show ?thesis
    by (simp only: Let_def) blast
qed

text \<open>
  C8 on a run that creates tracks 1 and 2, predicts, and then creates track 3.
\<close>

theorem track_ids_increasing_never_reused_witness:
  "sorted_wrt (<) (track_ids (run_calls exact_linalg TargetTracker_init [Update [(0, 0), (0, 5000)], Predict 1]))
   \<and> track_ids (run_calls exact_linalg TargetTracker_init [Update [(0, 0), (0, 5000)], Predict 1]) = [1, 2]
   \<and> next_id (run_calls exact_linalg TargetTracker_init [Update [(0, 0), (0, 5000)], Predict 1]) = 3
   \<and> id_pairs (run_calls exact_linalg (run_calls exact_linalg TargetTracker_init [Update [(0, 0), (0, 5000)], Predict 1])
                 [Update [(0, 10000)]]) = [(1, 1), (2, 2), (3, 3)]"
proof -
  have u: "update exact_linalg TargetTracker_init [(0, 0), (0, 5000)]
     = (\<lparr>tracks = [(1, new_track 1 (0, 0)), (2, new_track 2 (0, 5000))], next_id = 3\<rparr>, None)"
    by (simp add: TargetTracker_init_def update_one_def create_track_def new_track_def track_dist_simp)
  have r: "run_calls exact_linalg TargetTracker_init [Update [(0, 0), (0, 5000)], Predict 1]
     = \<lparr>tracks = [(1, predict_track 1 (new_track 1 (0, 0))), (2, predict_track 1 (new_track 2 (0, 5000)))],
        next_id = 3\<rparr>"
    by (simp only: run_calls_def foldl.simps call.simps u) (simp add: predict_def)
  have p: "predict_track 1 (new_track n (a, b))
             = \<lparr>tr_id = n, tr_state = [a, b, 0, 0], tr_P = tr_P (predict_track 1 (new_track n (a, b)))\<rparr>" for n a b
    by (simp add: predict_track_def new_track_def F_matrix_def mat_vec_def dot_def Let_def)
  have i: "id_pairs (fst (update exact_linalg \<lparr>tracks = [(1, predict_track 1 (new_track 1 (0, 0))),
              (2, predict_track 1 (new_track 2 (0, 5000)))], next_id = 3\<rparr> [(0, 10000)]))
            = [(1, 1), (2, 2), (3, 3)]"
    by (subst (1 2) p)
       (simp add: update_one_def create_track_def new_track_def track_dist_simp id_pairs_def)
  have a: "sorted_wrt (<) (track_ids (run_calls exact_linalg TargetTracker_init [Update [(0, 0), (0, 5000)], Predict 1]))"
    using track_ids_increasing_never_reused
      [where la = exact_linalg and cs = "[Update [(0, 0), (0, 5000)], Predict 1]"
         and cs' = "[Update [(0, 10000)]]" and d = "(0, 0)"]
    unfolding Let_def by (rule conjunct1)
  have b: "track_ids (run_calls exact_linalg TargetTracker_init [Update [(0, 0), (0, 5000)], Predict 1]) = [1, 2]"
    by (simp only: r) (simp add: track_ids_def)
  have c: "next_id (run_calls exact_linalg TargetTracker_init [Update [(0, 0), (0, 5000)], Predict 1]) = 3"
    by (simp only: r) simp
  have d: "id_pairs (run_calls exact_linalg (run_calls exact_linalg TargetTracker_init [Update [(0, 0), (0, 5000)], Predict 1])
                 [Update [(0, 10000)]]) = [(1, 1), (2, 2), (3, 3)]"
    by (simp only: r) (simp only: run_calls_def foldl.simps call.simps i)
  show ?thesis
    by (intro conjI a b c d)
qed

text \<open>
  C10: after a call of \<open>predict\<close> or \<open>update\<close> on any tracker, every key is still a key and
  the number of tracks has not decreased; and in every state reached from a new tracker
  each key keeps its place and the \<open>id\<close> field of its track.
\<close>

theorem tracks_never_removed:
  "set (track_ids t) \<subseteq> set (track_ids (call la t c))
   \<and> length (tracks t) \<le> length (tracks (call la t c))
   \<and> (let r = run_calls la TargetTracker_init cs
      in \<exists>new. id_pairs (call la r c) = id_pairs r @ new)"
proof -
  obtain new where "track_ids (call la t c) = track_ids t @ new"
    using call_keys by blast
  then have "set (track_ids t) \<subseteq> set (track_ids (call la t c))"
      "length (track_ids t) \<le> length (track_ids (call la t c))"
    by simp_all
  moreover have "\<exists>new. id_pairs (call la (run_calls la TargetTracker_init cs) c)
                      = id_pairs (run_calls la TargetTracker_init cs) @ new"
    using call_extends [OF tracker_inv_run [OF tracker_inv_init]] by blast
  ultimately show ?thesis
    by (simp add: track_ids_def Let_def)
qed

text \<open>
  C10 on a tracker with one track and an update that adds a second.
\<close>

theorem tracks_never_removed_witness:
  "set (track_ids \<lparr>tracks = [(1, new_track 1 (0, 0))], next_id = 2\<rparr>)
     \<subseteq> set (track_ids (call exact_linalg \<lparr>tracks = [(1, new_track 1 (0, 0))], next_id = 2\<rparr> (Update [(0, 5000)])))
   \<and> track_ids (call exact_linalg \<lparr>tracks = [(1, new_track 1 (0, 0))], next_id = 2\<rparr> (Update [(0, 5000)])) = [1, 2]"
  using tracks_never_removed [where la = exact_linalg
      and t = "\<lparr>tracks = [(1, new_track 1 (0, 0))], next_id = 2\<rparr>"
      and c = "Update [(0, 5000)]" and cs = "[]"]
  by (simp add: update_one_def create_track_def new_track_def track_dist_simp track_ids_def)

section \<open>Properties of the classifier\<close>

lemma length_array_split: "length (array_split xs n) = n"
  by (simp add: array_split_def Let_def)

text \<open>
  C9: a new classifier, and any classifier whose \<open>trained\<close> flag is not set, predicts the
  literal label \<open>unknown\<close> for every spectrum; a trained one returns the first label that
  the model's \<open>predict\<close> gives for the one-row matrix of the 8 features of the spectrum
  (or the exception it raises); and \<open>train\<close> sets the flag exactly when \<open>fit\<close> returns,
  keeping the fitted model.
\<close>

theorem classifier_predict_unknown_or_model:
  "classifier_predict svc_predict (SimpleClassifier_init svc) spectrum = Inr ''unknown''
   \<and> (\<not> trained c \<longrightarrow> classifier_predict svc_predict c spectrum = Inr ''unknown'')
   \<and> (trained c \<longrightarrow>
        length (featurize spectrum) = 8
      \<and> classifier_predict svc_predict c spectrum
          = (case svc_predict (model c) [featurize spectrum] of
               Inl e \<Rightarrow> Inl e
             | Inr [] \<Rightarrow> Inl IndexError
             | Inr (l # _) \<Rightarrow> Inr l))
   \<and> (\<forall>c'. classifier_train fit c X y = Inr c'
          \<longrightarrow> trained c' \<and> fit (model c) X y = Inr (model c'))
   \<and> (\<forall>e. classifier_train fit c X y = Inl e \<longrightarrow> fit (model c) X y = Inl e)"
  by (auto simp add: classifier_predict_def SimpleClassifier_init_def featurize_def
      length_array_split classifier_train_def Let_def split: sum.splits list.splits)

text \<open>
  C9 with a model that answers with its own state: trained it predicts that label, new it
  predicts \<open>unknown\<close>, and \<open>train\<close> sets the flag when
  \<open>fit\<close> returns and not when it raises.
\<close>

theorem classifier_predict_unknown_or_model_witness:
  "trained \<lparr>model = ''ship'', trained = True\<rparr>
   \<and> classifier_predict (\<lambda>m rows. Inr (map (\<lambda>row. m) rows)) \<lparr>model = ''ship'', trained = True\<rparr>
         [1, 2, 3, 4, 5, 6, 7, 8] = Inr ''ship''
   \<and> \<not> trained (SimpleClassifier_init ''svc'')
   \<and> classifier_predict (\<lambda>m rows. Inr (map (\<lambda>row. m) rows)) (SimpleClassifier_init ''svc'')
         [1, 2, 3, 4, 5, 6, 7, 8] = Inr ''unknown''
   \<and> classifier_train (\<lambda>m X y. Inr y) (SimpleClassifier_init ''svc'') () ''ship''
         = Inr \<lparr>model = ''ship'', trained = True\<rparr>
   \<and> classifier_train (\<lambda>m X y. Inl ValueError) (SimpleClassifier_init ''svc'') () ''ship''
         = Inl ValueError"
proof -
  have a: "trained \<lparr>model = ''ship'', trained = True\<rparr>"
      "\<not> trained (SimpleClassifier_init ''svc'')"
    by (simp_all add: SimpleClassifier_init_def)
  have b: "classifier_train (\<lambda>m X y. Inr y) (SimpleClassifier_init ''svc'') () ''ship''
         = Inr \<lparr>model = ''ship'', trained = True\<rparr>"
      "classifier_train (\<lambda>m X y. Inl ValueError) (SimpleClassifier_init ''svc'') () ''ship''
         = Inl ValueError"
    by (simp_all add: SimpleClassifier_init_def classifier_train_def)
  have c: "classifier_predict (\<lambda>m rows. Inr (map (\<lambda>row. m) rows)) \<lparr>model = ''ship'', trained = True\<rparr>
         [1, 2, 3, 4, 5, 6, 7, 8] = Inr ''ship''"
    using classifier_predict_unknown_or_model
      [of "\<lambda>m rows. Inr (map (\<lambda>row. m) rows)" "''svc''" "[1, 2, 3, 4, 5, 6, 7, 8]"
        "\<lparr>model = ''ship'', trained = True\<rparr>" "\<lambda>m X y. Inr y" "()" "''ship''"]
    by simp
  have d: "classifier_predict (\<lambda>m rows. Inr (map (\<lambda>row. m) rows)) (SimpleClassifier_init ''svc'')
         [1, 2, 3, 4, 5, 6, 7, 8] = Inr ''unknown''"
    using classifier_predict_unknown_or_model
      [of "\<lambda>m rows. Inr (map (\<lambda>row. m) rows)" "''svc''" "[1, 2, 3, 4, 5, 6, 7, 8]"
        "\<lparr>model = ''ship'', trained = True\<rparr>" "\<lambda>m X y. Inr y" "()" "''ship''"]
    by (rule conjunct1)
  show ?thesis
    by (intro conjI a b c d)
qed

end
